theory Spec2Isabelle
  imports
    Main
    "HOL-Library.DAList"
    "HOL-Library.Char_ord"
    "HOL-Library.List_Lexorder"
    "HOL-Library.Multiset"
begin

section \<open>Values, raw device records and errors\<close>

text \<open>
  The inventory API delivers each device as a JSON object. The fields the monitor reads
  (\<open>id\<close>, \<open>name\<close>, \<open>hostname\<close>, \<open>lastSeen\<close>) are JSON strings; a field may also be
  missing or \<open>null\<close>. A field value is therefore a Python \<open>str\<close> or \<open>None\<close>, and a raw
  device is a dict from field names to such values. A \<open>str\<close> is written as its UTF-8
  bytes, a lone surrogate (which JSON can deliver) by its three-byte form, \<open>ED A0 80\<close>
  for \<open>U+D800\<close>; the bytewise lexicographic order is then Python's order on \<open>str\<close>, by
  code point.
\<close>

datatype pyval = PNone | PStr string

type_synonym raw_device = "string \<rightharpoonup> pyval"

text \<open>
  The exceptions the code can meet, with what their message is made from: the text that
  \<open>fromisoformat\<close> rejected, the seconds that \<open>timedelta\<close> cannot hold.
\<close>

datatype pyerror =
    KeyError
  | ValueError string
  | TypeError
  | OverflowError int
  | UnicodeEncodeError

text \<open>How an f-string renders a value: \<open>str(None)\<close> is \<open>None\<close>.\<close>

fun format_val :: "pyval \<Rightarrow> string" where
  "format_val PNone = ''None''"
| "format_val (PStr s) = s"

text \<open>Python truthiness: \<open>None\<close> and the empty string are false.\<close>

fun truthy :: "pyval \<Rightarrow> bool" where
  "truthy PNone = False"
| "truthy (PStr s) = (s \<noteq> [])"

text \<open>\<open>d.get(k, default)\<close>: the default only when the key is missing.\<close>

definition get_default :: "raw_device \<Rightarrow> string \<Rightarrow> pyval \<Rightarrow> pyval" where
  "get_default d k dflt = (case d k of None \<Rightarrow> dflt | Some v \<Rightarrow> v)"

text \<open>\<open>d.get(k)\<close>: \<open>None\<close> when the key is missing.\<close>

definition get :: "raw_device \<Rightarrow> string \<Rightarrow> pyval" where
  "get d k = get_default d k PNone"

section \<open>Liveness classification: \<open>is_device_online\<close>\<close>

text \<open>
  A parsed \<open>datetime\<close> is either naive (no UTC offset in the text) or aware; an aware one
  is an instant, counted in microseconds since the epoch. \<open>datetime.fromisoformat\<close>
  belongs to the standard library, so the classifier takes it as a parameter: it
  returns \<open>None\<close> where the library raises \<open>ValueError\<close>.
\<close>

datatype pydatetime = Naive int | Aware int

type_synonym parser = "string \<Rightarrow> pydatetime option"

text \<open>
  The classifier writes two kinds of lines to stdout: under \<open>DEBUG\<close> the status line of
  line 92, made from the device's name, the time difference and the verdict; and in the
  exception handler the error line of line 96, made from the name and the exception.
  \<open>print\<close> raises \<open>UnicodeEncodeError\<close> when stdout cannot encode the text. Which
  texts it can encode depends on the encoding the process runs with, so that is part of
  the environment, with the \<open>DEBUG\<close> switch and the timestamp parser. Lines of constant
  ASCII text are encodable and are left out.
\<close>

datatype log_line =
    Status_line pyval int bool
  | Error_line pyval pyerror

record environment =
  fromisoformat :: parser
  debug :: bool
  stdout_accepts :: "log_line \<Rightarrow> bool"

definition print_line :: "environment \<Rightarrow> log_line \<Rightarrow> pyerror + unit" where
  "print_line env line = (if stdout_accepts env line then Inr () else Inl UnicodeEncodeError)"

text \<open>\<open>last_seen.replace('Z', '+00:00')\<close> replaces every occurrence of the letter.\<close>

definition replace_Z :: "string \<Rightarrow> string" where
  "replace_Z s = concat (map (\<lambda>c. if c = CHR ''Z'' then ''+00:00'' else [c]) s)"

text \<open>
  \<open>timedelta(seconds=n)\<close> normalises to days and seconds and raises \<open>OverflowError\<close>
  unless the days lie within \<open>\<plusminus>999999999\<close>. The result is in microseconds.
\<close>

definition timedelta_seconds :: "int \<Rightarrow> pyerror + int" where
  "timedelta_seconds n =
     (if - 999999999 \<le> n div 86400 \<and> n div 86400 \<le> 999999999
      then Inr (n * 1000000) else Inl (OverflowError n))"

text \<open>
  \<open>now - last_seen_time\<close> with \<open>now\<close> aware: \<open>TypeError\<close> when the parsed time is naive.
\<close>

definition datetime_sub :: "int \<Rightarrow> pydatetime \<Rightarrow> pyerror + int" where
  "datetime_sub now t = (case t of Naive _ \<Rightarrow> Inl TypeError | Aware u \<Rightarrow> Inr (now - u))"

text \<open>
  The body of the \<open>try\<close> block (lines 80--94): parse, subtract, compare with the
  threshold, and under \<open>DEBUG\<close> print the status line. \<open>now\<close> is the reading of the
  clock, \<open>threshold\<close> is \<open>ONLINE_THRESHOLD_SECONDS\<close>.
\<close>

definition online_try :: "environment \<Rightarrow> int \<Rightarrow> int \<Rightarrow> raw_device \<Rightarrow> string \<Rightarrow> pyerror + bool" where
  "online_try env now threshold dev last_seen =
     (case fromisoformat env (replace_Z last_seen) of
        None \<Rightarrow> Inl (ValueError (replace_Z last_seen))
      | Some last_seen_time \<Rightarrow>
          (case datetime_sub now last_seen_time of
             Inl e \<Rightarrow> Inl e
           | Inr time_diff \<Rightarrow>
               (case timedelta_seconds threshold of
                  Inl e \<Rightarrow> Inl e
                | Inr limit \<Rightarrow>
                    (let is_online = time_diff < limit in
                     if debug env
                     then (case print_line env
                                  (Status_line (get dev ''name'') time_diff is_online) of
                             Inl e \<Rightarrow> Inl e
                           | Inr _ \<Rightarrow> Inr is_online)
                     else Inr is_online))))"

text \<open>
  \<open>is_device_online\<close> (lines 74--97): a falsy \<open>lastSeen\<close> returns \<open>False\<close> before the
  \<open>try\<close>; \<open>except Exception\<close> catches every error of the body, prints the error line
  and returns \<open>False\<close>. An error of that \<open>print\<close> is raised inside the handler and
  leaves the function.
\<close>

definition is_device_online :: "environment \<Rightarrow> int \<Rightarrow> int \<Rightarrow> raw_device \<Rightarrow> pyerror + bool" where
  "is_device_online env now threshold dev =
     (let last_seen = get dev ''lastSeen'' in
      if \<not> truthy last_seen then Inr False
      else (case last_seen of
              PNone \<Rightarrow> Inr False
            | PStr s \<Rightarrow>
                (case online_try env now threshold dev s of
                   Inl e \<Rightarrow>
                     (case print_line env (Error_line (get dev ''name'') e) of
                        Inl e' \<Rightarrow> Inl e'
                      | Inr _ \<Rightarrow> Inr False)
                 | Inr is_online \<Rightarrow> Inr is_online)))"

text \<open>
  A parser for concrete inputs: it knows one timestamp, midnight of 1 January 2024 UTC,
  with and without its offset.
\<close>

definition sample_parser :: parser where
  "sample_parser s =
     (if s = ''2024-01-01T00:00:00+00:00'' then Some (Aware 1704067200000000)
      else if s = ''2024-01-01T00:00:00'' then Some (Naive 1704067200000000)
      else None)"

text \<open>
  A stdout that encodes in UTF-8, Python's default: it encodes every text but one with a
  lone surrogate. The messages of the exceptions quote their texts escaped, so in a log
  line only the name can hold one.
\<close>

fun has_surrogate :: "string \<Rightarrow> bool" where
  "has_surrogate (a # b # rest) =
     ((a = CHR 0xED \<and> CHR 0xA0 \<le> b) \<or> has_surrogate (b # rest))"
| "has_surrogate _ = False"

fun line_name :: "log_line \<Rightarrow> pyval" where
  "line_name (Status_line n _ _) = n"
| "line_name (Error_line n _) = n"

definition utf8_stdout :: "log_line \<Rightarrow> bool" where
  "utf8_stdout line = (\<not> has_surrogate (format_val (line_name line)))"

text \<open>A name that is the lone surrogate \<open>U+D800\<close>.\<close>

definition lone_surrogate :: string where
  "lone_surrogate = [CHR 0xED, CHR 0xA0, CHR 0x80]"

text \<open>The environments for concrete inputs: UTF-8 stdout, \<open>DEBUG\<close> off and on.\<close>

definition sample_env :: environment where
  "sample_env = \<lparr>fromisoformat = sample_parser, debug = False, stdout_accepts = utf8_stdout\<rparr>"

definition debug_env :: environment where
  "debug_env = \<lparr>fromisoformat = sample_parser, debug = True, stdout_accepts = utf8_stdout\<rparr>"

section \<open>Snapshots\<close>

text \<open>
  A snapshot is the dict \<open>current_devices\<close>: device id to
  \<open>{'name': ..., 'online': ..., 'lastSeen': ...}\<close>. A Python dict keeps its keys unique
  and in insertion order; assigning to a key that is already there keeps the key's place
  and replaces the value. That is an association list with distinct keys, read by
  \<open>DAList.lookup\<close>, written by \<open>DAList.update\<close> and iterated as \<open>DAList.impl_of\<close>.
\<close>

record entry =
  name :: pyval
  online :: bool
  lastSeen :: pyval

type_synonym snapshot = "(pyval, entry) alist"

definition items :: "snapshot \<Rightarrow> (pyval \<times> entry) list" where
  "items d = DAList.impl_of d"

text \<open>\<open>device.get('name') or device.get('hostname', 'Unknown')\<close>\<close>

definition display_name :: "raw_device \<Rightarrow> pyval" where
  "display_name dev =
     (let n = get dev ''name'' in
      if truthy n then n else get_default dev ''hostname'' (PStr ''Unknown''))"

text \<open>The dict literal of lines 205--209, evaluated at clock reading \<open>now\<close>.\<close>

definition make_entry :: "environment \<Rightarrow> int \<Rightarrow> int \<Rightarrow> raw_device \<Rightarrow> pyerror + entry" where
  "make_entry env now threshold dev =
     (case is_device_online env now threshold dev of
        Inl e \<Rightarrow> Inl e
      | Inr is_online \<Rightarrow>
          Inr \<lparr>name = display_name dev, online = is_online,
               lastSeen = get_default dev ''lastSeen'' (PStr [])\<rparr>)"

text \<open>
  The loop of lines 203--209 (the same loop is at lines 185--191). \<open>device['id']\<close>
  raises \<open>KeyError\<close> when the key is missing, and nothing in the loop catches it or an
  error of the classifier.
  Each pass classifies its device at its own reading of the clock: \<open>clock i\<close> is the
  reading in pass \<open>i\<close>.
\<close>

fun build_state ::
  "environment \<Rightarrow> (nat \<Rightarrow> int) \<Rightarrow> int \<Rightarrow> nat \<Rightarrow> raw_device list \<Rightarrow> snapshot \<Rightarrow>
     pyerror + snapshot"
where
  "build_state env clock threshold i [] current_devices = Inr current_devices"
| "build_state env clock threshold i (dev # rest) current_devices =
     (case dev ''id'' of
        None \<Rightarrow> Inl KeyError
      | Some device_id \<Rightarrow>
          (case make_entry env (clock i) threshold dev of
             Inl e \<Rightarrow> Inl e
           | Inr e \<Rightarrow>
               build_state env clock threshold (Suc i) rest
                 (DAList.update device_id e current_devices)))"

definition build_current ::
  "environment \<Rightarrow> (nat \<Rightarrow> int) \<Rightarrow> int \<Rightarrow> raw_device list \<Rightarrow> pyerror + snapshot"
where
  "build_current env clock threshold devices =
     build_state env clock threshold 0 devices DAList.empty"

section \<open>Reconciliation: the change list of \<open>check_devices\<close>\<close>

text \<open>
  A change is the dict \<open>{'device': ..., 'status': ..., 'type': ...}\<close>; the field
  \<open>type\<close> is called \<open>kind\<close> here.
\<close>

record change =
  device :: pyval
  status :: string
  kind :: string

definition status_of :: "entry \<Rightarrow> string" where
  "status_of dev = (if online dev then ''online'' else ''offline'')"

text \<open>
  Lines 218--234. An entry of the previous state is a dict with three keys, hence truthy:
  \<open>not prev\<close> holds exactly when the id is not a key of \<open>previous_state\<close>.
\<close>

fun new_or_changed :: "snapshot \<Rightarrow> (pyval \<times> entry) list \<Rightarrow> change list \<Rightarrow> change list" where
  "new_or_changed previous_state [] changes = changes"
| "new_or_changed previous_state ((device_id, dev) # rest) changes =
     (case DAList.lookup previous_state device_id of
        None \<Rightarrow>
          new_or_changed previous_state rest
            (changes @ [\<lparr>device = name dev, status = status_of dev, kind = ''new''\<rparr>])
      | Some prev \<Rightarrow>
          if online prev \<noteq> online dev
          then new_or_changed previous_state rest
                 (changes @ [\<lparr>device = name dev, status = status_of dev, kind = ''changed''\<rparr>])
          else new_or_changed previous_state rest changes)"

text \<open>Lines 237--243.\<close>

fun removed_devices :: "snapshot \<Rightarrow> (pyval \<times> entry) list \<Rightarrow> change list \<Rightarrow> change list" where
  "removed_devices current_devices [] changes = changes"
| "removed_devices current_devices ((device_id, dev) # rest) changes =
     (if DAList.lookup current_devices device_id = None
      then removed_devices current_devices rest
             (changes @ [\<lparr>device = name dev, status = ''removed'', kind = ''removed''\<rparr>])
      else removed_devices current_devices rest changes)"

text \<open>Lines 215--243: the value of \<open>changes\<close> after both loops.\<close>

definition check_changes :: "snapshot \<Rightarrow> snapshot \<Rightarrow> change list" where
  "check_changes current_devices previous_state =
     removed_devices current_devices (items previous_state)
       (new_or_changed previous_state (items current_devices) [])"

text \<open>
  The same two loops with each appended change paired with the loop variable
  \<open>device_id\<close> it was appended for. The events themselves carry the name, not the id.
\<close>

fun new_or_changed_ids ::
  "snapshot \<Rightarrow> (pyval \<times> entry) list \<Rightarrow> (pyval \<times> change) list \<Rightarrow> (pyval \<times> change) list"
where
  "new_or_changed_ids previous_state [] changes = changes"
| "new_or_changed_ids previous_state ((device_id, dev) # rest) changes =
     (case DAList.lookup previous_state device_id of
        None \<Rightarrow>
          new_or_changed_ids previous_state rest
            (changes @ [(device_id, \<lparr>device = name dev, status = status_of dev, kind = ''new''\<rparr>)])
      | Some prev \<Rightarrow>
          if online prev \<noteq> online dev
          then new_or_changed_ids previous_state rest
                 (changes @
                    [(device_id, \<lparr>device = name dev, status = status_of dev, kind = ''changed''\<rparr>)])
          else new_or_changed_ids previous_state rest changes)"

fun removed_devices_ids ::
  "snapshot \<Rightarrow> (pyval \<times> entry) list \<Rightarrow> (pyval \<times> change) list \<Rightarrow> (pyval \<times> change) list"
where
  "removed_devices_ids current_devices [] changes = changes"
| "removed_devices_ids current_devices ((device_id, dev) # rest) changes =
     (if DAList.lookup current_devices device_id = None
      then removed_devices_ids current_devices rest
             (changes @
                [(device_id, \<lparr>device = name dev, status = ''removed'', kind = ''removed''\<rparr>)])
      else removed_devices_ids current_devices rest changes)"

definition check_changes_ids :: "snapshot \<Rightarrow> snapshot \<Rightarrow> (pyval \<times> change) list" where
  "check_changes_ids current_devices previous_state =
     removed_devices_ids current_devices (items previous_state)
       (new_or_changed_ids previous_state (items current_devices) [])"

text \<open>
  The diff as section 4.3 of the specification words it: step 1 over the current
  snapshot, then step 2 over the previous one.
\<close>

definition step1_event :: "snapshot \<Rightarrow> pyval \<times> entry \<Rightarrow> change list" where
  "step1_event previous p =
     (case DAList.lookup previous (fst p) of
        None \<Rightarrow> [\<lparr>device = name (snd p), status = status_of (snd p), kind = ''new''\<rparr>]
      | Some prev \<Rightarrow>
          if online prev \<noteq> online (snd p)
          then [\<lparr>device = name (snd p), status = status_of (snd p), kind = ''changed''\<rparr>]
          else [])"

definition step2_event :: "snapshot \<Rightarrow> pyval \<times> entry \<Rightarrow> change list" where
  "step2_event current p =
     (if DAList.lookup current (fst p) = None
      then [\<lparr>device = name (snd p), status = ''removed'', kind = ''removed''\<rparr>]
      else [])"

definition diff_spec :: "snapshot \<Rightarrow> snapshot \<Rightarrow> change list" where
  "diff_spec current previous =
     concat (map (step1_event previous) (items current)) @
     concat (map (step2_event current) (items previous))"

text \<open>Whether the diff has something to report about an id.\<close>

definition differs :: "snapshot \<Rightarrow> snapshot \<Rightarrow> pyval \<Rightarrow> bool" where
  "differs current previous k =
     (case DAList.lookup current k of
        None \<Rightarrow> DAList.lookup previous k \<noteq> None
      | Some c \<Rightarrow>
          (case DAList.lookup previous k of
             None \<Rightarrow> True
           | Some p \<Rightarrow> online p \<noteq> online c))"

text \<open>Keys of a dict, in iteration order.\<close>

definition keys :: "snapshot \<Rightarrow> pyval list" where
  "keys d = map fst (items d)"

text \<open>Scenario 5 of the specification: \<open>previous = {A: online, B: offline}\<close>.\<close>

definition scenario5_previous :: snapshot where
  "scenario5_previous =
     DAList.update (PStr ''B'') \<lparr>name = PStr ''B'', online = False, lastSeen = PStr []\<rparr>
       (DAList.update (PStr ''A'') \<lparr>name = PStr ''A'', online = True, lastSeen = PStr []\<rparr>
          DAList.empty)"

text \<open>Scenario 5: \<open>current = {B: online, C: online}\<close>.\<close>

definition scenario5_current :: snapshot where
  "scenario5_current =
     DAList.update (PStr ''C'') \<lparr>name = PStr ''C'', online = True, lastSeen = PStr []\<rparr>
       (DAList.update (PStr ''B'') \<lparr>name = PStr ''B'', online = True, lastSeen = PStr []\<rparr>
          DAList.empty)"

text \<open>What the two loops append for one id: the first loop, then the second.\<close>

definition events_of :: "snapshot \<Rightarrow> snapshot \<Rightarrow> pyval \<Rightarrow> change list" where
  "events_of cur prev k =
     (case DAList.lookup cur k of None \<Rightarrow> [] | Some c \<Rightarrow> step1_event prev (k, c)) @
     (case DAList.lookup prev k of None \<Rightarrow> [] | Some p \<Rightarrow> step2_event cur (k, p))"

text \<open>What the diff reads of a snapshot: the keys in order, each with its online flag.\<close>

definition flags :: "snapshot \<Rightarrow> (pyval \<times> bool) list" where
  "flags d = map (\<lambda>p. (fst p, online (snd p))) (items d)"

text \<open>An event without the name it reports: id, status and kind.\<close>

definition shape :: "(pyval \<times> change) list \<Rightarrow> (pyval \<times> string \<times> string) list" where
  "shape evs = map (\<lambda>q. (fst q, status (snd q), kind (snd q))) evs"

text \<open>The two steps of the diff, computed from the flags alone.\<close>

definition step1_shape :: "(pyval \<times> bool) list \<Rightarrow> pyval \<times> bool \<Rightarrow> (pyval \<times> string \<times> string) list" where
  "step1_shape prev_flags p =
     (case map_of prev_flags (fst p) of
        None \<Rightarrow> [(fst p, if snd p then ''online'' else ''offline'', ''new'')]
      | Some b \<Rightarrow>
          if b \<noteq> snd p then [(fst p, if snd p then ''online'' else ''offline'', ''changed'')]
          else [])"

definition step2_shape :: "(pyval \<times> bool) list \<Rightarrow> pyval \<times> bool \<Rightarrow> (pyval \<times> string \<times> string) list" where
  "step2_shape cur_flags p =
     (if map_of cur_flags (fst p) = None then [(fst p, ''removed'', ''removed'')] else [])"

text \<open>A clock for concrete inputs: pass \<open>i\<close> runs \<open>i\<close> microseconds after 00:01:00.\<close>

definition sample_clock :: "nat \<Rightarrow> int" where
  "sample_clock i = 1704067260000000 + int i"

text \<open>Two current snapshots with the same key and flag but different names and timestamps.\<close>

definition renamed_current :: snapshot where
  "renamed_current =
     DAList.update (PStr ''B'')
       \<lparr>name = PStr ''B-renamed'', online = False, lastSeen = PStr ''2024-01-01T00:00:00Z''\<rparr>
       DAList.empty"

definition plain_current :: snapshot where
  "plain_current =
     DAList.update (PStr ''B'') \<lparr>name = PStr ''B'', online = False, lastSeen = PStr []\<rparr>
       DAList.empty"

text \<open>
  A batch for concrete inputs: the id \<open>1\<close> occurs twice, the second record has only a
  \<open>hostname\<close>, and no record but the first has a \<open>lastSeen\<close>.
\<close>

definition sample_devices :: "raw_device list" where
  "sample_devices =
     [[''id'' \<mapsto> PStr ''1'', ''name'' \<mapsto> PStr ''phone'',
       ''lastSeen'' \<mapsto> PStr ''2024-01-01T00:00:00Z''],
      [''id'' \<mapsto> PStr ''2'', ''hostname'' \<mapsto> PStr ''box''],
      [''id'' \<mapsto> PStr ''1'', ''name'' \<mapsto> PStr ''phone-new'']]"

definition sample_snapshot :: snapshot where
  "sample_snapshot =
     DAList.update (PStr ''1'') \<lparr>name = PStr ''phone-new'', online = False, lastSeen = PStr []\<rparr>
       (DAList.update (PStr ''2'') \<lparr>name = PStr ''box'', online = False, lastSeen = PStr []\<rparr>
          (DAList.update (PStr ''1'')
             \<lparr>name = PStr ''phone'', online = False,
              lastSeen = PStr ''2024-01-01T00:00:00Z''\<rparr>
             DAList.empty))"

section \<open>The initial status report\<close>

text \<open>
  \<open>str(n)\<close> for a count, and for the check interval, which may be any integer.
\<close>

fun str_nat :: "nat \<Rightarrow> string" where
  "str_nat n =
     (if n < 10 then [''0123456789'' ! n] else str_nat (n div 10) @ [''0123456789'' ! (n mod 10)])"

declare str_nat.simps [simp del]

definition str_int :: "int \<Rightarrow> string" where
  "str_int i = (if i < 0 then CHR ''-'' # str_nat (nat (- i)) else str_nat (nat i))"

text \<open>
  \<open>sorted(names)\<close>: strings compare by code point. A list of two or more elements is
  compared, and comparing \<open>None\<close> with anything raises \<open>TypeError\<close>.
\<close>

definition py_sorted :: "pyval list \<Rightarrow> pyerror + pyval list" where
  "py_sorted xs =
     (if length xs \<le> 1 then Inr xs
      else if PNone \<in> set xs then Inl TypeError
      else Inr (map PStr (sort (map format_val xs))))"

text \<open>\<open>sep.join(parts)\<close>\<close>

fun join :: "string \<Rightarrow> string list \<Rightarrow> string" where
  "join sep [] = []"
| "join sep [x] = x"
| "join sep (x # y # ys) = x @ sep @ join sep (y # ys)"

text \<open>The non-ASCII characters of the report, in UTF-8.\<close>

definition green_circle :: string where
  "green_circle = [CHR 0xF0, CHR 0x9F, CHR 0x9F, CHR 0xA2]"

definition red_circle :: string where
  "red_circle = [CHR 0xF0, CHR 0x9F, CHR 0x94, CHR 0xB4]"

definition magnifier :: string where
  "magnifier = [CHR 0xF0, CHR 0x9F, CHR 0x94, CHR 0x8D]"

definition bullet :: string where
  "bullet = [CHR 0xE2, CHR 0x80, CHR 0xA2]"

definition newline :: string where
  "newline = [CHR 0x0A]"

text \<open>
  The loop of lines 138--145: every record is classified, pass \<open>i\<close> at clock reading
  \<open>clock i\<close>, and its name appended to one of the two lists.
\<close>

fun classify_devices ::
  "environment \<Rightarrow> (nat \<Rightarrow> int) \<Rightarrow> int \<Rightarrow> nat \<Rightarrow> raw_device list \<Rightarrow> pyval list \<Rightarrow> pyval list \<Rightarrow>
     pyerror + pyval list \<times> pyval list"
where
  "classify_devices env clock threshold i [] online_devices offline_devices =
     Inr (online_devices, offline_devices)"
| "classify_devices env clock threshold i (dev # rest) online_devices offline_devices =
     (let device_name = display_name dev in
      case is_device_online env (clock i) threshold dev of
        Inl e \<Rightarrow> Inl e
      | Inr is_online \<Rightarrow>
          if is_online
          then classify_devices env clock threshold (Suc i) rest
                 (online_devices @ [device_name]) offline_devices
          else classify_devices env clock threshold (Suc i) rest
                 online_devices (offline_devices @ [device_name]))"

text \<open>Lines 160--164 and 169--173: the lines under a heading.\<close>

definition section_lines :: "pyval list \<Rightarrow> pyerror + string list" where
  "section_lines devices =
     (if devices \<noteq> []
      then (case py_sorted devices of
              Inl e \<Rightarrow> Inl e
            | Inr sorted_devices \<Rightarrow>
                Inr (map (\<lambda>d. ''  '' @ bullet @ '' '' @ format_val d) sorted_devices))
      else Inr [''  (none)''])"

text \<open>Lines 151--178: \<open>body\<close>, from the two lists and \<open>CHECK_INTERVAL\<close>.\<close>

definition report_body :: "int \<Rightarrow> pyval list \<Rightarrow> pyval list \<Rightarrow> pyerror + string" where
  "report_body check_interval online_devices offline_devices =
     (let total_devices = length online_devices + length offline_devices;
          body_parts =
            [''Total Devices: '' @ str_nat total_devices,
             [],
             green_circle @ '' Online ('' @ str_nat (length online_devices) @ ''):'']
      in case section_lines online_devices of
           Inl e \<Rightarrow> Inl e
         | Inr online_lines \<Rightarrow>
             (let body_parts = body_parts @ online_lines @
                    [[], red_circle @ '' Offline ('' @ str_nat (length offline_devices) @ ''):'']
              in case section_lines offline_devices of
                   Inl e \<Rightarrow> Inl e
                 | Inr offline_lines \<Rightarrow>
                     Inr (join newline
                            (body_parts @ offline_lines @
                             [[],
                              magnifier @ '' Now monitoring for changes (checking every '' @
                                str_int check_interval @ ''s)...'']))))"

text \<open>Lines 132--178 of \<open>send_initial_status\<close>: the body of the report for a device list.\<close>

definition initial_status_body ::
  "environment \<Rightarrow> (nat \<Rightarrow> int) \<Rightarrow> int \<Rightarrow> int \<Rightarrow> raw_device list \<Rightarrow> pyerror + string"
where
  "initial_status_body env clock threshold check_interval devices =
     (case classify_devices env clock threshold 0 devices [] [] of
        Inl e \<Rightarrow> Inl e
      | Inr (online_devices, offline_devices) \<Rightarrow>
          report_body check_interval online_devices offline_devices)"

text \<open>
  The partition as the specification words it: each record's name with its
  classification, record \<open>i\<close> classified at clock reading \<open>clock i\<close>; the online names and
  the offline names, each sorted.
\<close>

fun classified ::
  "environment \<Rightarrow> (nat \<Rightarrow> int) \<Rightarrow> int \<Rightarrow> nat \<Rightarrow> raw_device list \<Rightarrow> (string \<times> bool) list"
where
  "classified env clock T i [] = []"
| "classified env clock T i (dev # rest) =
     (format_val (display_name dev), is_device_online env (clock i) T dev = Inr True) #
     classified env clock T (Suc i) rest"

definition online_names :: "environment \<Rightarrow> (nat \<Rightarrow> int) \<Rightarrow> int \<Rightarrow> raw_device list \<Rightarrow> string list" where
  "online_names env clock T devices =
     sort (map fst (filter snd (classified env clock T 0 devices)))"

definition offline_names :: "environment \<Rightarrow> (nat \<Rightarrow> int) \<Rightarrow> int \<Rightarrow> raw_device list \<Rightarrow> string list" where
  "offline_names env clock T devices =
     sort (map fst (filter (\<lambda>p. \<not> snd p) (classified env clock T 0 devices)))"

text \<open>
  The classifier returns on every record of the list, record \<open>i\<close> at clock reading
  \<open>clock i\<close>: every log line it prints on the way is written.
\<close>

fun classifier_returns :: "environment \<Rightarrow> (nat \<Rightarrow> int) \<Rightarrow> int \<Rightarrow> nat \<Rightarrow> raw_device list \<Rightarrow> bool" where
  "classifier_returns env clock T i [] = True"
| "classifier_returns env clock T i (dev # rest) =
     (\<not> isl (is_device_online env (clock i) T dev) \<and> classifier_returns env clock T (Suc i) rest)"

text \<open>The text of the report as lines, each ended by a newline but the last.\<close>

definition lines_text :: "string list \<Rightarrow> string" where
  "lines_text ls = concat (map (\<lambda>l. l @ [CHR 0x0A]) ls)"

definition listing :: "string list \<Rightarrow> string list" where
  "listing names =
     (if names = [] then [''  (none)'']
      else map (\<lambda>s. ''  '' @ [CHR 0xE2, CHR 0x80, CHR 0xA2] @ '' '' @ s) names)"

section \<open>Facts about the two loops\<close>

lemma new_or_changed_acc:
  "new_or_changed prev xs acc = acc @ concat (map (step1_event prev) xs)"
  by (induction xs arbitrary: acc) (auto simp: step1_event_def split: option.splits)

lemma removed_devices_acc:
  "removed_devices cur xs acc = acc @ concat (map (step2_event cur) xs)"
  by (induction xs arbitrary: acc) (auto simp: step2_event_def)

lemma check_changes_diff_spec: "check_changes cur prev = diff_spec cur prev"
  by (simp add: check_changes_def diff_spec_def new_or_changed_acc removed_devices_acc)

lemma lookup_items: "(k, v) \<in> set (items d) \<Longrightarrow> DAList.lookup d k = Some v"
  by (simp add: items_def DAList.lookup.rep_eq)

lemma step1_same: "p \<in> set (items d) \<Longrightarrow> step1_event d p = []"
  by (cases p) (simp add: step1_event_def lookup_items)

lemma step2_same: "p \<in> set (items d) \<Longrightarrow> step2_event d p = []"
  by (cases p) (simp add: step2_event_def lookup_items)

lemma items_empty: "items DAList.empty = []"
  by (simp add: items_def DAList.empty.rep_eq)

lemma items_update: "items (DAList.update k v d) = AList.update k v (items d)"
  by (simp add: items_def DAList.update.rep_eq)

lemma distinct_items: "distinct (map fst (items d))"
  by (simp add: items_def)

lemma lookup_map_of: "DAList.lookup d = map_of (items d)"
  by (simp add: items_def DAList.lookup.rep_eq)

lemma new_or_changed_ids_acc:
  "new_or_changed_ids prev xs acc =
     acc @ concat (map (\<lambda>p. map (Pair (fst p)) (step1_event prev p)) xs)"
  by (induction xs arbitrary: acc) (auto simp: step1_event_def split: option.splits)

lemma removed_devices_ids_acc:
  "removed_devices_ids cur xs acc =
     acc @ concat (map (\<lambda>p. map (Pair (fst p)) (step2_event cur p)) xs)"
  by (induction xs arbitrary: acc) (auto simp: step2_event_def)

lemma check_changes_ids_eq:
  "check_changes_ids cur prev =
     concat (map (\<lambda>p. map (Pair (fst p)) (step1_event prev p)) (items cur)) @
     concat (map (\<lambda>p. map (Pair (fst p)) (step2_event cur p)) (items prev))"
  by (simp add: check_changes_ids_def new_or_changed_ids_acc removed_devices_ids_acc)

lemma snd_tagged: "map snd (concat (map (\<lambda>p. map (Pair (fst p)) (f p)) xs)) = concat (map f xs)"
  by (induction xs) (simp_all add: comp_def)

lemma check_changes_ids_snd: "map snd (check_changes_ids cur prev) = check_changes cur prev"
  by (simp add: check_changes_ids_eq check_changes_diff_spec diff_spec_def snd_tagged)

lemma filter_tagged:
  "filter (\<lambda>q. fst q = k) (concat (map (\<lambda>p. map (Pair (fst p)) (f p)) xs)) =
     concat (map (\<lambda>p. map (Pair k) (f p)) (filter (\<lambda>p. fst p = k) xs))"
  by (induction xs) (auto simp: filter_empty_conv)

lemma filter_key_distinct:
  "distinct (map fst xs) \<Longrightarrow>
     filter (\<lambda>p. fst p = k) xs = (case map_of xs k of None \<Rightarrow> [] | Some v \<Rightarrow> [(k, v)])"
proof (induction xs)
  case Nil
  then show ?case by simp
next
  case (Cons x xs)
  obtain a b where x: "x = (a, b)" by (cases x)
  show ?case
  proof (cases "a = k")
    case True
    with Cons.prems x have "k \<notin> fst ` set xs" by auto
    then have "filter (\<lambda>p. fst p = k) xs = []"
      by (auto simp: filter_empty_conv)
    with True x show ?thesis by simp
  next
    case False
    with Cons x show ?thesis by simp
  qed
qed

lemma filter_check_changes_ids:
  "filter (\<lambda>q. fst q = k) (check_changes_ids cur prev) = map (Pair k) (events_of cur prev k)"
  by (simp add: check_changes_ids_eq filter_tagged filter_key_distinct distinct_items
      events_of_def lookup_map_of split: option.splits)

lemma length_events_of: "length (events_of cur prev k) = (if differs cur prev k then 1 else 0)"
  by (auto simp: events_of_def differs_def step1_event_def step2_event_def split: option.splits)

lemma ids_order:
  "map fst (check_changes_ids cur prev) =
     filter (differs cur prev) (keys cur) @
     filter (\<lambda>k. DAList.lookup cur k = None) (keys prev)"
proof -
  have a: "map fst (concat (map (\<lambda>p. map (Pair (fst p)) (step1_event prev p)) xs)) =
           filter (differs cur prev) (map fst xs)" if "set xs \<subseteq> set (items cur)" for xs
    using that
  proof (induction xs)
    case Nil
    then show ?case by simp
  next
    case (Cons x xs)
    obtain a b where x: "x = (a, b)" by (cases x)
    with Cons.prems have "DAList.lookup cur a = Some b" by (simp add: lookup_items)
    then have "map fst (map (Pair a) (step1_event prev (a, b))) = (if differs cur prev a then [a] else [])"
      by (auto simp: step1_event_def differs_def split: option.splits)
    with Cons x show ?case by simp
  qed
  have b: "map fst (concat (map (\<lambda>p. map (Pair (fst p)) (step2_event cur p)) xs)) =
           filter (\<lambda>k. DAList.lookup cur k = None) (map fst xs)" for xs
    by (induction xs) (auto simp: step2_event_def)
  show ?thesis
    by (simp add: check_changes_ids_eq a b keys_def)
qed

lemma map_of_flags: "map_of (flags d) k = map_option online (DAList.lookup d k)"
proof -
  have "map_of (map (\<lambda>p. (fst p, online (snd p))) xs) k = map_option online (map_of xs k)" for xs :: "(pyval \<times> entry) list"
    by (induction xs) auto
  then show ?thesis by (simp add: flags_def lookup_map_of)
qed

lemma shape_step1:
  "map (\<lambda>q. (fst q, status (snd q), kind (snd q))) (map (Pair (fst p)) (step1_event prev p)) =
     step1_shape (flags prev) (fst p, online (snd p))"
  by (auto simp: step1_event_def step1_shape_def map_of_flags status_of_def split: option.splits)

lemma shape_step2:
  "map (\<lambda>q. (fst q, status (snd q), kind (snd q))) (map (Pair (fst p)) (step2_event cur p)) =
     step2_shape (flags cur) (fst p, online (snd p))"
  by (auto simp: step2_event_def step2_shape_def map_of_flags)

lemma shape_flags:
  "shape (check_changes_ids cur prev) =
     concat (map (step1_shape (flags prev)) (flags cur)) @
     concat (map (step2_shape (flags cur)) (flags prev))"
proof -
  have a: "map (\<lambda>q. (fst q, status (snd q), kind (snd q)))
             (concat (map (\<lambda>p. map (Pair (fst p)) (step1_event prev p)) xs)) =
           concat (map (step1_shape (flags prev)) (map (\<lambda>p. (fst p, online (snd p))) xs))" for xs
    by (induction xs) (simp_all add: shape_step1 del: map_map)
  have b: "map (\<lambda>q. (fst q, status (snd q), kind (snd q)))
             (concat (map (\<lambda>p. map (Pair (fst p)) (step2_event cur p)) xs)) =
           concat (map (step2_shape (flags cur)) (map (\<lambda>p. (fst p, online (snd p))) xs))" for xs
    by (induction xs) (simp_all add: shape_step2 del: map_map)
  show ?thesis
    unfolding shape_def check_changes_ids_eq map_append a b flags_def ..
qed

lemma scenario5_items:
  "items scenario5_current =
     [(PStr ''B'', \<lparr>name = PStr ''B'', online = True, lastSeen = PStr []\<rparr>),
      (PStr ''C'', \<lparr>name = PStr ''C'', online = True, lastSeen = PStr []\<rparr>)]"
  "items scenario5_previous =
     [(PStr ''A'', \<lparr>name = PStr ''A'', online = True, lastSeen = PStr []\<rparr>),
      (PStr ''B'', \<lparr>name = PStr ''B'', online = False, lastSeen = PStr []\<rparr>)]"
  by (simp_all add: scenario5_current_def scenario5_previous_def items_update items_empty)

lemma scenario5_changes:
  "check_changes scenario5_current scenario5_previous =
     [\<lparr>device = PStr ''B'', status = ''online'', kind = ''changed''\<rparr>,
      \<lparr>device = PStr ''C'', status = ''online'', kind = ''new''\<rparr>,
      \<lparr>device = PStr ''A'', status = ''removed'', kind = ''removed''\<rparr>]"
  by (simp add: check_changes_diff_spec diff_spec_def scenario5_items step1_event_def
      step2_event_def status_of_def lookup_map_of)

text \<open>
  C3. For every pair of snapshots and every id among their keys, the diff emits at most
  one event for that id, and exactly one when the id's online flag differs between the
  two snapshots or the id is a key of exactly one of them; an id that does not differ
  gets no event. The events of an id are those the loops append while \<open>device_id\<close> is
  that id; stripped of the ids they are the change list.
\<close>

theorem diff_complete:
  "map snd (check_changes_ids cur prev) = check_changes cur prev \<and>
   (\<forall>k \<in> set (keys cur) \<union> set (keys prev).
      length (filter (\<lambda>q. fst q = k) (check_changes_ids cur prev)) \<le> 1 \<and>
      (differs cur prev k \<longrightarrow>
         length (filter (\<lambda>q. fst q = k) (check_changes_ids cur prev)) = 1) \<and>
      (\<not> differs cur prev k \<longrightarrow>
         filter (\<lambda>q. fst q = k) (check_changes_ids cur prev) = []))"
proof -
  have "events_of cur prev k = []" if "\<not> differs cur prev k" for k
    using length_events_of [of cur prev k] that by simp
  then show ?thesis
    by (simp add: check_changes_ids_snd filter_check_changes_ids length_events_of)
qed

text \<open>In scenario 5 the id \<open>B\<close> changes its flag and gets exactly one event.\<close>

theorem diff_complete_witness:
  "PStr ''B'' \<in> set (keys scenario5_current) \<union> set (keys scenario5_previous) \<and>
   differs scenario5_current scenario5_previous (PStr ''B'') \<and>
   length (filter (\<lambda>q. fst q = PStr ''B'')
     (check_changes_ids scenario5_current scenario5_previous)) = 1"
proof -
  have m: "PStr ''B'' \<in> set (keys scenario5_current) \<union> set (keys scenario5_previous)"
    by (simp add: keys_def scenario5_items)
  have d: "differs scenario5_current scenario5_previous (PStr ''B'')"
    by (simp add: differs_def lookup_map_of scenario5_items)
  from diff_complete [of scenario5_current scenario5_previous] m d show ?thesis
    by blast
qed

text \<open>
  C4. The change list is the new/changed events in the insertion order of the current
  snapshot's keys, followed by the removed events in the insertion order of the previous
  snapshot's keys: it is the list of section 4.3, and the ids it reports are the
  differing keys of \<open>current\<close> in order, then the keys of \<open>previous\<close> missing from
  \<open>current\<close> in order. For \<open>previous = {A: online, B: offline}\<close> and
  \<open>current = {B: online, C: online}\<close> the list is
  \<open>[{B, online, changed}, {C, online, new}, {A, removed, removed}]\<close>.
\<close>

theorem diff_order:
  "check_changes cur prev = diff_spec cur prev \<and>
   map fst (check_changes_ids cur prev) =
     filter (differs cur prev) (keys cur) @
     filter (\<lambda>k. DAList.lookup cur k = None) (keys prev) \<and>
   map snd (check_changes_ids cur prev) = check_changes cur prev \<and>
   check_changes scenario5_current scenario5_previous =
     [\<lparr>device = PStr ''B'', status = ''online'', kind = ''changed''\<rparr>,
      \<lparr>device = PStr ''C'', status = ''online'', kind = ''new''\<rparr>,
      \<lparr>device = PStr ''A'', status = ''removed'', kind = ''removed''\<rparr>]"
  using check_changes_diff_spec ids_order check_changes_ids_snd scenario5_changes by simp

text \<open>
  C10. An id that is a key of both snapshots with equal online flags gets no event,
  whatever the entries' \<open>name\<close> and \<open>lastSeen\<close> are; an id removed from the current
  snapshot gets one \<open>removed\<close> event that reports the name stored in the previous
  snapshot; and two pairs of snapshots with the same keys in the same order and the same
  online flags yield the same events up to the reported names.
\<close>

theorem diff_reads_presence_and_flag:
  "(DAList.lookup cur k = Some c \<and> DAList.lookup prev k = Some p \<and> online c = online p \<longrightarrow>
      filter (\<lambda>q. fst q = k) (check_changes_ids cur prev) = []) \<and>
   (DAList.lookup prev k = Some p \<and> DAList.lookup cur k = None \<longrightarrow>
      filter (\<lambda>q. fst q = k) (check_changes_ids cur prev) =
        [(k, \<lparr>device = name p, status = ''removed'', kind = ''removed''\<rparr>)]) \<and>
   (flags cur = flags cur' \<and> flags prev = flags prev' \<longrightarrow>
      shape (check_changes_ids cur prev) = shape (check_changes_ids cur' prev')) \<and>
   map snd (check_changes_ids cur prev) = check_changes cur prev"
  by (simp add: filter_check_changes_ids events_of_def step1_event_def step2_event_def
      shape_flags check_changes_ids_snd)

text \<open>
  C2. Diffing a snapshot against itself yields no event: \<open>diff(S, S) == []\<close> for every
  snapshot \<open>S\<close>.
\<close>

theorem diff_self_empty: "check_changes S S = []"
proof -
  have "concat (map (step1_event S) (items S)) = []"
    by (simp add: step1_same)
  moreover have "concat (map (step2_event S) (items S)) = []"
    by (simp add: step2_same)
  ultimately show ?thesis
    by (simp add: check_changes_diff_spec diff_spec_def)
qed

lemma renamed_items:
  "items renamed_current =
     [(PStr ''B'', \<lparr>name = PStr ''B-renamed'', online = False,
        lastSeen = PStr ''2024-01-01T00:00:00Z''\<rparr>)]"
  "items plain_current =
     [(PStr ''B'', \<lparr>name = PStr ''B'', online = False, lastSeen = PStr []\<rparr>)]"
  by (simp_all add: renamed_current_def plain_current_def items_update items_empty)

text \<open>The three cases of C10 on concrete snapshots.\<close>

theorem diff_reads_presence_and_flag_witness:
  "DAList.lookup renamed_current (PStr ''B'') =
     Some \<lparr>name = PStr ''B-renamed'', online = False, lastSeen = PStr ''2024-01-01T00:00:00Z''\<rparr> \<and>
   DAList.lookup scenario5_previous (PStr ''B'') =
     Some \<lparr>name = PStr ''B'', online = False, lastSeen = PStr []\<rparr> \<and>
   filter (\<lambda>q. fst q = PStr ''B'') (check_changes_ids renamed_current scenario5_previous) = [] \<and>
   DAList.lookup scenario5_previous (PStr ''A'') =
     Some \<lparr>name = PStr ''A'', online = True, lastSeen = PStr []\<rparr> \<and>
   DAList.lookup renamed_current (PStr ''A'') = None \<and>
   filter (\<lambda>q. fst q = PStr ''A'') (check_changes_ids renamed_current scenario5_previous) =
     [(PStr ''A'', \<lparr>device = PStr ''A'', status = ''removed'', kind = ''removed''\<rparr>)] \<and>
   flags renamed_current = flags plain_current \<and>
   shape (check_changes_ids renamed_current scenario5_previous) =
     shape (check_changes_ids plain_current scenario5_previous)"
proof -
  let ?b = "\<lparr>name = PStr ''B-renamed'', online = False, lastSeen = PStr ''2024-01-01T00:00:00Z''\<rparr>"
  let ?pb = "\<lparr>name = PStr ''B'', online = False, lastSeen = PStr []\<rparr>"
  let ?pa = "\<lparr>name = PStr ''A'', online = True, lastSeen = PStr []\<rparr>"
  have l1: "DAList.lookup renamed_current (PStr ''B'') = Some ?b"
    by (simp add: lookup_map_of renamed_items)
  have l2: "DAList.lookup scenario5_previous (PStr ''B'') = Some ?pb"
    by (simp add: lookup_map_of scenario5_items)
  have l3: "DAList.lookup scenario5_previous (PStr ''A'') = Some ?pa"
    by (simp add: lookup_map_of scenario5_items)
  have l4: "DAList.lookup renamed_current (PStr ''A'') = None"
    by (simp add: lookup_map_of renamed_items)
  have f: "flags renamed_current = flags plain_current"
    by (simp add: flags_def renamed_items)
  have o: "online ?b = online ?pb" by simp
  from diff_reads_presence_and_flag
         [of renamed_current "PStr ''B''" ?b scenario5_previous ?pb plain_current scenario5_previous]
       l1 l2 o f
  have a: "filter (\<lambda>q. fst q = PStr ''B'') (check_changes_ids renamed_current scenario5_previous) = []"
    and c: "shape (check_changes_ids renamed_current scenario5_previous) =
            shape (check_changes_ids plain_current scenario5_previous)"
    by blast+
  from diff_reads_presence_and_flag
         [of renamed_current "PStr ''A''" ?pa scenario5_previous ?pa plain_current scenario5_previous]
       l3 l4
  have b: "filter (\<lambda>q. fst q = PStr ''A'') (check_changes_ids renamed_current scenario5_previous) =
     [(PStr ''A'', \<lparr>device = PStr ''A'', status = ''removed'', kind = ''removed''\<rparr>)]"
    by simp
  from l1 l2 l3 l4 f a b c show ?thesis by blast
qed

section \<open>Facts about the classifier\<close>

lemma replace_Z_sample: "replace_Z ''2024-01-01T00:00:00Z'' = ''2024-01-01T00:00:00+00:00''"
  by (simp add: replace_Z_def)

lemma is_device_online_falsy:
  "dev ''lastSeen'' = None \<or> dev ''lastSeen'' = Some PNone \<or> dev ''lastSeen'' = Some (PStr []) \<Longrightarrow>
     is_device_online env now T dev = Inr False"
  by (auto simp: is_device_online_def get_def get_default_def)

lemma is_device_online_stdout:
  "\<forall>line. stdout_accepts env line \<Longrightarrow> \<not> isl (is_device_online env now T dev)"
  by (auto simp: is_device_online_def Let_def print_line_def split: pyval.splits sum.splits)

lemma is_device_online_unparsable:
  "dev ''lastSeen'' = Some (PStr s) \<Longrightarrow> fromisoformat env (replace_Z s) = None \<Longrightarrow>
   stdout_accepts env (Error_line (get dev ''name'') (ValueError (replace_Z s))) \<Longrightarrow>
     is_device_online env now T dev = Inr False"
  by (auto simp: is_device_online_def get_def get_default_def online_try_def print_line_def)

lemma utf8_rejects_surrogate:
  "\<not> utf8_stdout (Error_line (PStr lone_surrogate) e)"
  "\<not> utf8_stdout (Status_line (PStr lone_surrogate) d b)"
  by (simp_all add: utf8_stdout_def lone_surrogate_def)

text \<open>
  C6. The handler of \<open>is_device_online\<close> is there to turn every error into \<open>False\<close>, but
  it prints the device's name first. For an unparsable \<open>lastSeen\<close> and a name that is
  the lone surrogate \<open>U+D800\<close>, which a UTF-8 stdout cannot encode, that \<open>print\<close>
  raises and the \<open>UnicodeEncodeError\<close> reaches the caller.
\<close>

theorem classifier_raises_on_unprintable_name:
  "is_device_online sample_env 1704067260000000 60
     [''name'' \<mapsto> PStr lone_surrogate, ''lastSeen'' \<mapsto> PStr ''yesterday''] =
   Inl UnicodeEncodeError"
  by (simp add: is_device_online_def get_def get_default_def online_try_def replace_Z_def
      sample_env_def sample_parser_def print_line_def utf8_rejects_surrogate)

text \<open>
  C5 as stated fails in four ways. With a threshold of \<open>10^14\<close> seconds, which
  \<open>timedelta\<close> cannot hold, a device seen zero seconds ago is offline. A \<open>lastSeen\<close>
  without UTC offset parses, to a naive datetime, and the device is offline whatever the
  clock says. And where a log line is due and stdout cannot encode the device's name, the
  classifier raises: in the handler, here after the overflow, and under \<open>DEBUG\<close> on the
  status line.
\<close>

theorem threshold_overflow_counterexample:
  "sample_parser (replace_Z ''2024-01-01T00:00:00Z'') = Some (Aware 1704067200000000) \<and>
   (1704067200000000 - 1704067200000000 :: int) < 100000000000000 * 1000000 \<and>
   is_device_online sample_env 1704067200000000 100000000000000
     [''lastSeen'' \<mapsto> PStr ''2024-01-01T00:00:00Z''] = Inr False \<and>
   sample_parser (replace_Z ''2024-01-01T00:00:00'') = Some (Naive 1704067200000000) \<and>
   (1704067200000000 - 1704067200000000 :: int) < 60 * 1000000 \<and>
   is_device_online sample_env 1704067200000000 60
     [''lastSeen'' \<mapsto> PStr ''2024-01-01T00:00:00''] = Inr False \<and>
   is_device_online sample_env 1704067200000000 100000000000000
     [''name'' \<mapsto> PStr lone_surrogate, ''lastSeen'' \<mapsto> PStr ''2024-01-01T00:00:00Z''] =
     Inl UnicodeEncodeError \<and>
   is_device_online debug_env 1704067200000000 60
     [''name'' \<mapsto> PStr lone_surrogate, ''lastSeen'' \<mapsto> PStr ''2024-01-01T00:00:00Z''] =
     Inl UnicodeEncodeError"
proof -
  have n: "replace_Z ''2024-01-01T00:00:00'' = ''2024-01-01T00:00:00''"
    by (simp add: replace_Z_def)
  have ok: "utf8_stdout (Error_line PNone e)" for e
    by (simp add: utf8_stdout_def)
  show ?thesis
    by (simp add: is_device_online_def get_def get_default_def online_try_def replace_Z_sample n
        sample_env_def debug_env_def sample_parser_def datetime_sub_def timedelta_seconds_def
        print_line_def utf8_rejects_surrogate ok)
qed

text \<open>
  C5, amended. Let \<open>lastSeen\<close> be a non-empty string, \<open>now\<close> the clock reading in
  microseconds and \<open>T\<close> the threshold in seconds. If \<open>lastSeen\<close> parses to an instant
  \<open>t\<close> and \<open>timedelta\<close> can hold \<open>T\<close> (\<open>T div 86400\<close> within \<open>\<plusminus>999999999\<close>), the device is
  online iff \<open>now - t\<close> is strictly below \<open>T\<close> seconds, also when \<open>now - t\<close> is negative,
  provided that under \<open>DEBUG\<close> the status line is written. If \<open>timedelta\<close> cannot hold
  \<open>T\<close>, or \<open>lastSeen\<close> parses to a naive datetime, the device is offline, provided the
  handler's error line is written.
\<close>

theorem online_iff_within_threshold:
  "dev ''lastSeen'' = Some (PStr s) \<and> s \<noteq> [] \<longrightarrow>
   (fromisoformat env (replace_Z s) = Some (Aware t) \<and>
    - 999999999 \<le> T div 86400 \<and> T div 86400 \<le> 999999999 \<and>
    (debug env \<longrightarrow>
       stdout_accepts env (Status_line (get dev ''name'') (now - t) (now - t < T * 1000000))) \<longrightarrow>
      is_device_online env now T dev = Inr (now - t < T * 1000000)) \<and>
   (fromisoformat env (replace_Z s) = Some (Aware t) \<and>
    \<not> (- 999999999 \<le> T div 86400 \<and> T div 86400 \<le> 999999999) \<and>
    stdout_accepts env (Error_line (get dev ''name'') (OverflowError T)) \<longrightarrow>
      is_device_online env now T dev = Inr False) \<and>
   (fromisoformat env (replace_Z s) = Some (Naive t) \<and>
    stdout_accepts env (Error_line (get dev ''name'') TypeError) \<longrightarrow>
      is_device_online env now T dev = Inr False)"
  by (auto simp: is_device_online_def get_def get_default_def online_try_def datetime_sub_def
      timedelta_seconds_def print_line_def Let_def)

text \<open>
  At the threshold: offline. One microsecond below, and in the future: online. A
  threshold too large, and a naive timestamp: offline. Under \<open>DEBUG\<close> with a name that
  stdout encodes: online.
\<close>

theorem online_iff_within_threshold_witness:
  "is_device_online sample_env 1704067260000000 60
     [''lastSeen'' \<mapsto> PStr ''2024-01-01T00:00:00Z''] = Inr False \<and>
   is_device_online sample_env 1704067259999999 60
     [''lastSeen'' \<mapsto> PStr ''2024-01-01T00:00:00Z''] = Inr True \<and>
   is_device_online sample_env 1704067100000000 60
     [''lastSeen'' \<mapsto> PStr ''2024-01-01T00:00:00Z''] = Inr True \<and>
   is_device_online sample_env 1704067200000000 100000000000000
     [''lastSeen'' \<mapsto> PStr ''2024-01-01T00:00:00Z''] = Inr False \<and>
   is_device_online sample_env 1704067200000000 60
     [''lastSeen'' \<mapsto> PStr ''2024-01-01T00:00:00''] = Inr False \<and>
   is_device_online debug_env 1704067200000000 60
     [''name'' \<mapsto> PStr ''phone'', ''lastSeen'' \<mapsto> PStr ''2024-01-01T00:00:00Z''] = Inr True"
proof -
  let ?z = "[''lastSeen'' \<mapsto> PStr ''2024-01-01T00:00:00Z'']"
  let ?p = "[''name'' \<mapsto> PStr ''phone'', ''lastSeen'' \<mapsto> PStr ''2024-01-01T00:00:00Z'']"
  let ?n = "[''lastSeen'' \<mapsto> PStr ''2024-01-01T00:00:00'']"
  have p: "fromisoformat sample_env (replace_Z ''2024-01-01T00:00:00Z'') =
             Some (Aware 1704067200000000)"
    by (simp add: replace_Z_sample sample_parser_def sample_env_def)
  have q: "fromisoformat sample_env (replace_Z ''2024-01-01T00:00:00'') =
             Some (Naive 1704067200000000)"
    by (simp add: replace_Z_def sample_parser_def sample_env_def)
  have d: "\<not> debug sample_env"
    by (simp add: sample_env_def)
  have ok: "stdout_accepts sample_env (Error_line (get ?z ''name'') e)"
    "stdout_accepts sample_env (Error_line (get ?n ''name'') e)" for e
    by (simp_all add: sample_env_def utf8_stdout_def get_def get_default_def)
  have hz: "?z ''lastSeen'' = Some (PStr ''2024-01-01T00:00:00Z'') \<and> ''2024-01-01T00:00:00Z'' \<noteq> []"
    by simp
  have hn: "?n ''lastSeen'' = Some (PStr ''2024-01-01T00:00:00'') \<and> ''2024-01-01T00:00:00'' \<noteq> []"
    by simp
  note a = online_iff_within_threshold
      [of ?z "''2024-01-01T00:00:00Z''" sample_env 1704067200000000 60 1704067260000000]
  note b = online_iff_within_threshold
      [of ?z "''2024-01-01T00:00:00Z''" sample_env 1704067200000000 60 1704067259999999]
  note c = online_iff_within_threshold
      [of ?z "''2024-01-01T00:00:00Z''" sample_env 1704067200000000 60 1704067100000000]
  note e = online_iff_within_threshold
      [of ?z "''2024-01-01T00:00:00Z''" sample_env 1704067200000000 100000000000000
        1704067200000000]
  note f = online_iff_within_threshold
      [of ?n "''2024-01-01T00:00:00''" sample_env 1704067200000000 60 1704067200000000]
  from a hz p d have 1: "is_device_online sample_env 1704067260000000 60 ?z = Inr False" by simp
  from b hz p d have 2: "is_device_online sample_env 1704067259999999 60 ?z = Inr True" by simp
  from c hz p d have 3: "is_device_online sample_env 1704067100000000 60 ?z = Inr True" by simp
  from e hz p ok(1) have 4: "is_device_online sample_env 1704067200000000 100000000000000 ?z = Inr False"
    by simp
  from f hn q ok(2) have 5: "is_device_online sample_env 1704067200000000 60 ?n = Inr False" by simp
  have pd: "fromisoformat debug_env (replace_Z ''2024-01-01T00:00:00Z'') =
             Some (Aware 1704067200000000)"
    by (simp add: replace_Z_sample sample_parser_def debug_env_def)
  have hp: "?p ''lastSeen'' = Some (PStr ''2024-01-01T00:00:00Z'') \<and> ''2024-01-01T00:00:00Z'' \<noteq> []"
    by simp
  have sp: "stdout_accepts debug_env (Status_line (get ?p ''name'') d b)" for d b
    by (simp add: debug_env_def utf8_stdout_def get_def get_default_def)
  note g = online_iff_within_threshold
      [of ?p "''2024-01-01T00:00:00Z''" debug_env 1704067200000000 60 1704067200000000]
  from g hp pd sp have 6: "is_device_online debug_env 1704067200000000 60 ?p = Inr True" by simp
  from 1 2 3 4 5 6 show ?thesis by simp
qed

section \<open>Facts about the snapshot builder\<close>

lemma make_entry_Inr:
  "make_entry env now T dev = Inr e \<longleftrightarrow>
     (\<exists>b. is_device_online env now T dev = Inr b \<and>
        e = \<lparr>name = display_name dev, online = b,
             lastSeen = get_default dev ''lastSeen'' (PStr [])\<rparr>)"
  by (auto simp: make_entry_def split: sum.splits)

text \<open>What a pass of the loop has done when the loop ends with a snapshot.\<close>

lemma build_state_Cons_Inr:
  assumes "build_state env clock T i (dev # rest) cur = Inr S"
  obtains k e where "dev ''id'' = Some k" and "make_entry env (clock i) T dev = Inr e"
    and "build_state env clock T (Suc i) rest (DAList.update k e cur) = Inr S"
  using assms by (auto split: option.splits sum.splits)

lemma classifier_returns_stdout:
  "\<forall>line. stdout_accepts env line \<Longrightarrow> classifier_returns env clock T i devices"
  by (induction devices arbitrary: i) (simp_all add: is_device_online_stdout)

lemma build_state_KeyError:
  "classifier_returns env clock T i devices \<Longrightarrow> \<exists>d \<in> set devices. d ''id'' = None \<Longrightarrow>
     build_state env clock T i devices cur = Inl KeyError"
proof (induction devices arbitrary: i cur)
  case Nil
  then show ?case by simp
next
  case (Cons dev rest)
  show ?case
  proof (cases "dev ''id''")
    case None
    then show ?thesis by simp
  next
    case (Some k)
    with Cons.prems have "\<exists>d \<in> set rest. d ''id'' = None" by auto
    moreover from Cons.prems have "classifier_returns env clock T (Suc i) rest"
      and "\<not> isl (is_device_online env (clock i) T dev)" by simp_all
    ultimately show ?thesis
      using Cons.IH Some by (auto simp: make_entry_def split: sum.splits)
  qed
qed

lemma build_state_Inr:
  "classifier_returns env clock T i devices \<Longrightarrow> \<forall>d \<in> set devices. d ''id'' \<noteq> None \<Longrightarrow>
     \<exists>S. build_state env clock T i devices cur = Inr S"
proof (induction devices arbitrary: i cur)
  case Nil
  then show ?case by simp
next
  case (Cons dev rest)
  then obtain k where k: "dev ''id'' = Some k" by auto
  from Cons.prems have "\<forall>d \<in> set rest. d ''id'' \<noteq> None"
    and "classifier_returns env clock T (Suc i) rest"
    and "\<not> isl (is_device_online env (clock i) T dev)" by simp_all
  with Cons.IH k show ?case
    by (auto simp: make_entry_def split: sum.splits)
qed

lemma build_state_ids:
  "\<forall>d \<in> set devices. d ''id'' \<noteq> None" if "build_state env clock T i devices cur = Inr S"
  using that
proof (induction devices arbitrary: i cur)
  case Nil
  then show ?case by simp
next
  case (Cons dev rest)
  from Cons.prems obtain k e where "dev ''id'' = Some k"
    and "build_state env clock T (Suc i) rest (DAList.update k e cur) = Inr S"
    by (rule build_state_Cons_Inr)
  with Cons.IH show ?case by auto
qed

lemma build_state_keys:
  "build_state env clock T i devices cur = Inr S \<Longrightarrow>
     set (keys S) = set (keys cur) \<union> {k. \<exists>d \<in> set devices. d ''id'' = Some k}"
proof (induction devices arbitrary: i cur)
  case Nil
  then show ?case by simp
next
  case (Cons dev rest)
  from Cons.prems obtain k e where k: "dev ''id'' = Some k"
    and "build_state env clock T (Suc i) rest (DAList.update k e cur) = Inr S"
    by (rule build_state_Cons_Inr)
  from Cons.IH [OF this(2)] have
    "set (keys S) = set (keys (DAList.update k e cur)) \<union> {k. \<exists>d \<in> set rest. d ''id'' = Some k}" .
  moreover have "set (keys (DAList.update k e cur)) = insert k (set (keys cur))"
    by (auto simp: keys_def items_update AList.update_keys)
  ultimately show ?case using k by auto
qed

lemma build_state_lookup:
  "build_state env clock T i devices cur = Inr S \<Longrightarrow>
   j < length devices \<Longrightarrow> (devices ! j) ''id'' = Some k \<Longrightarrow>
   \<forall>j'. j < j' \<and> j' < length devices \<longrightarrow> (devices ! j') ''id'' \<noteq> Some k \<Longrightarrow>
   \<exists>e. make_entry env (clock (i + j)) T (devices ! j) = Inr e \<and> DAList.lookup S k = Some e"
  and build_state_lookup_other:
  "build_state env clock T i devices cur = Inr S \<Longrightarrow>
   \<forall>d \<in> set devices. d ''id'' \<noteq> Some k \<Longrightarrow> DAList.lookup S k = DAList.lookup cur k"
proof (induction devices arbitrary: i cur j)
  case Nil
  {
    case 1
    then show ?case by simp
  next
    case 2
    then show ?case by simp
  }
next
  case (Cons dev rest)
  {
    case 1
    from 1(1) obtain k0 e0 where k0: "dev ''id'' = Some k0"
      and e0: "make_entry env (clock i) T dev = Inr e0"
      and rest: "build_state env clock T (Suc i) rest (DAList.update k0 e0 cur) = Inr S"
      by (rule build_state_Cons_Inr)
    show ?case
    proof (cases j)
      case 0
      with 1 k0 have "k0 = k" by auto
      moreover have "\<forall>d \<in> set rest. d ''id'' \<noteq> Some k"
      proof
        fix d assume "d \<in> set rest"
        then obtain n where "n < length rest" "rest ! n = d" by (auto simp: in_set_conv_nth)
        with 1(4) 0 show "d ''id'' \<noteq> Some k" by (auto dest: spec [of _ "Suc n"])
      qed
      ultimately show ?thesis
        using Cons.IH(2) [OF rest] e0 0 by simp
    next
      case (Suc n)
      with 1 have "n < length rest" "(rest ! n) ''id'' = Some k"
        "\<forall>j'. n < j' \<and> j' < length rest \<longrightarrow> (rest ! j') ''id'' \<noteq> Some k"
        by (auto dest: spec [of _ "Suc _"])
      from Cons.IH(1) [OF rest this] Suc show ?thesis by simp
    qed
  next
    case 2
    from 2(1) obtain k0 e0 where k0: "dev ''id'' = Some k0"
      and rest: "build_state env clock T (Suc i) rest (DAList.update k0 e0 cur) = Inr S"
      by (rule build_state_Cons_Inr)
    from 2(2) k0 have "k0 \<noteq> k" "\<forall>d \<in> set rest. d ''id'' \<noteq> Some k" by auto
    with Cons.IH(2) [OF rest] show ?case by simp
  }
qed

lemma display_name_cases:
  "(d ''name'' = Some (PStr s) \<and> s \<noteq> [] \<longrightarrow> display_name d = PStr s) \<and>
   (d ''name'' = None \<or> d ''name'' = Some PNone \<or> d ''name'' = Some (PStr []) \<longrightarrow>
      display_name d = (case d ''hostname'' of None \<Rightarrow> PStr ''Unknown'' | Some h \<Rightarrow> h))"
  by (auto simp: display_name_def get_def get_default_def)

lemma keys_distinct: "distinct (keys S)"
  by (simp add: keys_def distinct_items)

lemma length_keys_distinct_ids:
  assumes "set (keys S) = {k. \<exists>d \<in> set devices. d ''id'' = Some k}"
    and "\<forall>d \<in> set devices. d ''id'' \<noteq> None"
    and "distinct (map (\<lambda>d. d ''id'') devices)"
  shows "length (keys S) = length devices"
proof -
  have "{k. \<exists>d \<in> set devices. d ''id'' = Some k} = set (map (\<lambda>d. the (d ''id'')) devices)"
    using assms(2) by force
  moreover have "distinct (map (\<lambda>d. the (d ''id'')) devices)"
  proof -
    have "inj_on the (set (map (\<lambda>d. d ''id'') devices))"
    proof (rule inj_onI)
      fix x y assume x: "x \<in> set (map (\<lambda>d. d ''id'') devices)"
        and y: "y \<in> set (map (\<lambda>d. d ''id'') devices)"
        and e: "the x = the y"
      from x assms(2) have "x \<noteq> None" by auto
      moreover from y assms(2) have "y \<noteq> None" by auto
      ultimately show "x = y" using e by (cases x; cases y) simp_all
    qed
    with assms(3) have "distinct (map the (map (\<lambda>d. d ''id'') devices))"
      by (simp only: distinct_map)
    then show ?thesis by (simp add: comp_def)
  qed
  ultimately have "card (set (keys S)) = length devices"
    using assms(1) distinct_card [of "map (\<lambda>d. the (d ''id'')) devices"] by simp
  with keys_distinct [of S] show ?thesis
    by (simp add: distinct_card)
qed

text \<open>
  C1 as stated fails: a record without \<open>id\<close> ahead of a valid record leaves no snapshot
  at all, the \<open>KeyError\<close> ends the loop. Nor is \<open>KeyError\<close> the only way the loop ends:
  a record with an \<open>id\<close> on which the classifier raises ends it before the record
  without \<open>id\<close> is reached.
\<close>

theorem missing_id_counterexample:
  "build_current sample_env sample_clock 60
     [[''name'' \<mapsto> PStr ''laptop''], [''id'' \<mapsto> PStr ''1'', ''name'' \<mapsto> PStr ''phone'']] =
     Inl KeyError \<and>
   build_current sample_env sample_clock 60
     [[''id'' \<mapsto> PStr ''1'', ''name'' \<mapsto> PStr lone_surrogate, ''lastSeen'' \<mapsto> PStr ''yesterday''],
      [''name'' \<mapsto> PStr ''laptop'']] =
     Inl UnicodeEncodeError"
  by (simp add: build_current_def make_entry_def is_device_online_def get_def get_default_def
      online_try_def replace_Z_def sample_env_def sample_parser_def print_line_def
      utf8_rejects_surrogate)

text \<open>
  C1, amended. Where the classifier returns on every record (as it does when stdout
  encodes every log line), a raw device list that contains a record without an \<open>id\<close>
  field makes the snapshot builder raise \<open>KeyError\<close>: no snapshot is produced for that
  batch. A list in which every record has an \<open>id\<close> yields a snapshot.
\<close>

theorem missing_id_aborts:
  "(classifier_returns env clock T 0 devices \<longrightarrow>
      ((\<exists>d \<in> set devices. d ''id'' = None) \<longrightarrow> build_current env clock T devices = Inl KeyError) \<and>
      ((\<forall>d \<in> set devices. d ''id'' \<noteq> None) \<longrightarrow> (\<exists>S. build_current env clock T devices = Inr S))) \<and>
   ((\<forall>line. stdout_accepts env line) \<longrightarrow> classifier_returns env clock T 0 devices)"
  using build_state_KeyError [of env clock T 0 devices DAList.empty]
    build_state_Inr [of env clock T 0 devices DAList.empty]
    classifier_returns_stdout [of env clock T 0 devices]
  by (auto simp: build_current_def)

text \<open>A batch whose second record lacks \<open>id\<close>, and a batch of one valid record.\<close>

theorem missing_id_aborts_witness:
  "classifier_returns sample_env sample_clock 60 0
     [[''id'' \<mapsto> PStr ''1'', ''name'' \<mapsto> PStr ''phone''], [''name'' \<mapsto> PStr ''laptop'']] \<and>
   [''name'' \<mapsto> PStr ''laptop''] ''id'' = None \<and>
   build_current sample_env sample_clock 60
     [[''id'' \<mapsto> PStr ''1'', ''name'' \<mapsto> PStr ''phone''], [''name'' \<mapsto> PStr ''laptop'']] =
     Inl KeyError \<and>
   classifier_returns sample_env sample_clock 60 0 [[''id'' \<mapsto> PStr ''1'', ''name'' \<mapsto> PStr ''phone'']] \<and>
   [''id'' \<mapsto> PStr ''1'', ''name'' \<mapsto> PStr ''phone''] ''id'' \<noteq> None \<and>
   (\<exists>S. build_current sample_env sample_clock 60
      [[''id'' \<mapsto> PStr ''1'', ''name'' \<mapsto> PStr ''phone'']] = Inr S)"
proof -
  have r: "classifier_returns sample_env sample_clock 60 0
     [[''id'' \<mapsto> PStr ''1'', ''name'' \<mapsto> PStr ''phone''], [''name'' \<mapsto> PStr ''laptop'']]"
    "classifier_returns sample_env sample_clock 60 0 [[''id'' \<mapsto> PStr ''1'', ''name'' \<mapsto> PStr ''phone'']]"
    by (simp_all add: is_device_online_falsy)
  from r missing_id_aborts
      [of sample_env sample_clock 60
        "[[''id'' \<mapsto> PStr ''1'', ''name'' \<mapsto> PStr ''phone''], [''name'' \<mapsto> PStr ''laptop'']]"]
    missing_id_aborts
      [of sample_env sample_clock 60 "[[''id'' \<mapsto> PStr ''1'', ''name'' \<mapsto> PStr ''phone'']]"]
  show ?thesis by simp
qed

text \<open>
  C7 as stated fails: a record whose \<open>name\<close> field is present but empty gets the
  \<open>hostname\<close> as its name, not the \<open>name\<close> field.
\<close>

theorem empty_name_counterexample:
  "build_current sample_env sample_clock 60
     [[''id'' \<mapsto> PStr ''1'', ''name'' \<mapsto> PStr [], ''hostname'' \<mapsto> PStr ''host'']] =
   Inr (DAList.update (PStr ''1'') \<lparr>name = PStr ''host'', online = False, lastSeen = PStr []\<rparr>
          DAList.empty)"
  by (simp add: build_current_def make_entry_def is_device_online_falsy display_name_def get_def
      get_default_def)

text \<open>
  C7, amended. When the builder returns a snapshot (every record has an \<open>id\<close>), its keys
  are exactly the ids of the records, each once; with pairwise distinct ids there are as
  many entries as records; the entry of an id is the one built from the last record with
  that id, classified at that record's pass; and an entry's name is the record's \<open>name\<close>
  field if that is a non-empty string, else the \<open>hostname\<close> field if present, else
  \<open>"Unknown"\<close>.
\<close>

theorem build_last_write_wins:
  "build_current env clock T devices = Inr S \<longrightarrow>
     set (keys S) = {k. \<exists>d \<in> set devices. d ''id'' = Some k} \<and>
     distinct (keys S) \<and>
     (distinct (map (\<lambda>d. d ''id'') devices) \<longrightarrow> length (keys S) = length devices) \<and>
     (\<forall>j k. j < length devices \<and> (devices ! j) ''id'' = Some k \<and>
        (\<forall>j'. j < j' \<and> j' < length devices \<longrightarrow> (devices ! j') ''id'' \<noteq> Some k) \<longrightarrow>
        (\<exists>b. is_device_online env (clock j) T (devices ! j) = Inr b \<and>
           DAList.lookup S k =
             Some \<lparr>name = display_name (devices ! j), online = b,
                   lastSeen = get_default (devices ! j) ''lastSeen'' (PStr [])\<rparr>)) \<and>
     (\<forall>d s. (d ''name'' = Some (PStr s) \<and> s \<noteq> [] \<longrightarrow> display_name d = PStr s) \<and>
        (d ''name'' = None \<or> d ''name'' = Some PNone \<or> d ''name'' = Some (PStr []) \<longrightarrow>
           display_name d = (case d ''hostname'' of None \<Rightarrow> PStr ''Unknown'' | Some h \<Rightarrow> h)))"
proof (intro impI conjI allI)
  assume b: "build_current env clock T devices = Inr S"
  then have bs: "build_state env clock T 0 devices DAList.empty = Inr S"
    by (simp add: build_current_def)
  from build_state_keys [OF bs]
  show ks: "set (keys S) = {k. \<exists>d \<in> set devices. d ''id'' = Some k}"
    by (simp add: keys_def items_empty)
  show "distinct (keys S)" by (rule keys_distinct)
  show "length (keys S) = length devices" if "distinct (map (\<lambda>d. d ''id'') devices)"
    using length_keys_distinct_ids [OF ks build_state_ids [OF bs] that] .
  show "\<exists>b. is_device_online env (clock j) T (devices ! j) = Inr b \<and>
           DAList.lookup S k =
             Some \<lparr>name = display_name (devices ! j), online = b,
                   lastSeen = get_default (devices ! j) ''lastSeen'' (PStr [])\<rparr>"
    if h: "j < length devices \<and> (devices ! j) ''id'' = Some k \<and>
        (\<forall>j'. j < j' \<and> j' < length devices \<longrightarrow> (devices ! j') ''id'' \<noteq> Some k)" for j k
  proof -
    from build_state_lookup [OF bs, of j k] h
    obtain e where "make_entry env (clock (0 + j)) T (devices ! j) = Inr e"
      and "DAList.lookup S k = Some e" by blast
    then show ?thesis by (auto simp: make_entry_Inr)
  qed
qed (use display_name_cases in blast)+

lemma sample_build: "build_current sample_env sample_clock 60 sample_devices = Inr sample_snapshot"
  by (simp add: build_current_def sample_devices_def sample_snapshot_def make_entry_def
      is_device_online_def display_name_def get_def get_default_def online_try_def
      replace_Z_sample sample_env_def sample_parser_def datetime_sub_def timedelta_seconds_def
      sample_clock_def)

text \<open>The last record with id \<open>1\<close> wins; the snapshot has the two ids.\<close>

theorem build_last_write_wins_witness:
  "build_current sample_env sample_clock 60 sample_devices = Inr sample_snapshot \<and>
   DAList.lookup sample_snapshot (PStr ''1'') =
     Some \<lparr>name = PStr ''phone-new'', online = False, lastSeen = PStr []\<rparr> \<and>
   set (keys sample_snapshot) = {PStr ''1'', PStr ''2''}"
proof -
  note t = build_last_write_wins [of sample_env sample_clock 60 sample_devices sample_snapshot]
  have ids: "{k. \<exists>d \<in> set sample_devices. d ''id'' = Some k} = {PStr ''1'', PStr ''2''}"
    by (auto simp: sample_devices_def)
  from t sample_build ids have k: "set (keys sample_snapshot) = {PStr ''1'', PStr ''2''}"
    by simp
  have j: "2 < length sample_devices \<and> (sample_devices ! 2) ''id'' = Some (PStr ''1'') \<and>
        (\<forall>j'. 2 < j' \<and> j' < length sample_devices \<longrightarrow> (sample_devices ! j') ''id'' \<noteq> Some (PStr ''1''))"
    by (simp add: sample_devices_def)
  from t sample_build j obtain b where
    b: "is_device_online sample_env (sample_clock 2) 60 (sample_devices ! 2) = Inr b"
    and l: "DAList.lookup sample_snapshot (PStr ''1'') =
             Some \<lparr>name = display_name (sample_devices ! 2), online = b,
                   lastSeen = get_default (sample_devices ! 2) ''lastSeen'' (PStr [])\<rparr>"
    by blast
  from b have "b = False"
    by (simp add: sample_devices_def is_device_online_def get_def get_default_def)
  with l have "DAList.lookup sample_snapshot (PStr ''1'') =
     Some \<lparr>name = PStr ''phone-new'', online = False, lastSeen = PStr []\<rparr>"
    by (simp add: sample_devices_def display_name_def get_def get_default_def)
  with sample_build k show ?thesis by simp
qed

text \<open>
  C9. A raw record with no \<open>lastSeen\<close> field gets a snapshot entry whose \<open>lastSeen\<close> is
  the empty string, and the classifier returns \<open>False\<close> for an empty-string \<open>lastSeen\<close> as
  for an absent one, whatever the environment (timestamp parser, \<open>DEBUG\<close>, stdout), the
  clock and the threshold are: the parser is not consulted and nothing is printed.
\<close>

theorem absent_lastSeen_empty_string:
  "(dev ''lastSeen'' = None \<longrightarrow>
      make_entry env now T dev =
        Inr \<lparr>name = display_name dev, online = False, lastSeen = PStr []\<rparr>) \<and>
   (dev ''lastSeen'' = None \<and> dev ''id'' = Some k \<longrightarrow>
      build_current env clock T [dev] =
        Inr (DAList.update k \<lparr>name = display_name dev, online = False, lastSeen = PStr []\<rparr>
               DAList.empty)) \<and>
   (dev ''lastSeen'' = None \<or> dev ''lastSeen'' = Some (PStr []) \<longrightarrow>
      (\<forall>env' now' T'. is_device_online env' now' T' dev = Inr False))"
  by (auto simp: build_current_def make_entry_def is_device_online_def get_def get_default_def)

text \<open>A record without \<open>lastSeen\<close> and one whose \<open>lastSeen\<close> is empty.\<close>

theorem absent_lastSeen_empty_string_witness:
  "[''id'' \<mapsto> PStr ''1'', ''name'' \<mapsto> PStr ''phone''] ''lastSeen'' = None \<and>
   build_current sample_env sample_clock 60 [[''id'' \<mapsto> PStr ''1'', ''name'' \<mapsto> PStr ''phone'']] =
     Inr (DAList.update (PStr ''1'') \<lparr>name = PStr ''phone'', online = False, lastSeen = PStr []\<rparr>
            DAList.empty) \<and>
   is_device_online sample_env 1704067200000000 60 [''lastSeen'' \<mapsto> PStr []] = Inr False"
proof -
  have n: "display_name [''id'' \<mapsto> PStr ''1'', ''name'' \<mapsto> PStr ''phone''] = PStr ''phone''"
    by (simp add: display_name_def get_def get_default_def)
  from absent_lastSeen_empty_string
         [of "[''id'' \<mapsto> PStr ''1'', ''name'' \<mapsto> PStr ''phone'']" sample_env 0 60 "PStr ''1''"
            sample_clock]
       absent_lastSeen_empty_string
         [of "[''lastSeen'' \<mapsto> PStr []]" sample_env 0 60 "PStr ''1''" sample_clock]
       n
  show ?thesis by simp
qed


section \<open>Facts about the status report\<close>

lemma classify_devices_classified:
  "\<forall>d \<in> set devices. display_name d \<noteq> PNone \<Longrightarrow> classifier_returns env clock T i devices \<Longrightarrow>
   classify_devices env clock T i devices on off =
     Inr (on @ map PStr (map fst (filter snd (classified env clock T i devices))),
          off @ map PStr (map fst (filter (\<lambda>p. \<not> snd p) (classified env clock T i devices))))"
proof (induction devices arbitrary: i on off)
  case Nil
  then show ?case by simp
next
  case (Cons dev rest)
  from Cons.prems obtain s where s: "display_name dev = PStr s"
    by (cases "display_name dev") auto
  from Cons.prems obtain b where b: "is_device_online env (clock i) T dev = Inr b"
    by (cases "is_device_online env (clock i) T dev") auto
  from Cons.prems have "\<forall>d \<in> set rest. display_name d \<noteq> PNone"
    and "classifier_returns env clock T (Suc i) rest" by simp_all
  note ih = Cons.IH [OF this]
  show ?case
    by (cases b) (simp_all add: s b ih)
qed

lemma sort_short: "length xs \<le> 1 \<Longrightarrow> sort xs = xs"
  by (cases xs) (auto simp: length_Suc_conv)

lemma py_sorted_strings: "py_sorted (map PStr xs) = Inr (map PStr (sort xs))"
proof -
  have "map format_val (map PStr xs) = xs"
    by (induction xs) simp_all
  moreover have "PNone \<notin> set (map PStr xs)"
    by auto
  ultimately show ?thesis
    by (simp add: py_sorted_def sort_short del: map_map)
qed

lemma section_lines_strings: "section_lines (map PStr xs) = Inr (listing (sort xs))"
proof (cases "xs = []")
  case True
  then show ?thesis by (simp add: section_lines_def listing_def)
next
  case False
  then have "sort xs \<noteq> []"
    by (metis length_sort length_0_conv)
  with False show ?thesis
    by (simp add: section_lines_def listing_def py_sorted_strings comp_def bullet_def)
qed

lemma length_classified: "length (classified env clock T i devices) = length devices"
  by (induction devices arbitrary: i) simp_all

lemma map_fst_classified:
  "map fst (classified env clock T i devices) = map (\<lambda>d. format_val (display_name d)) devices"
  by (induction devices arbitrary: i) simp_all

lemma join_lines_text: "join [CHR 0x0A] (ls @ [l]) = lines_text ls @ l"
proof (induction ls)
  case Nil
  then show ?case by (simp add: lines_text_def)
next
  case (Cons a ls)
  then show ?case
    by (cases ls) (simp_all add: lines_text_def)
qed

lemma report_body_strings:
  "report_body interval (map PStr on) (map PStr off) =
     Inr (lines_text
            ([''Total Devices: '' @ str_nat (length on + length off),
              [],
              green_circle @ '' Online ('' @ str_nat (length on) @ ''):''] @
             listing (sort on) @
             [[], red_circle @ '' Offline ('' @ str_nat (length off) @ ''):''] @
             listing (sort off) @
             [[]]) @
          magnifier @ '' Now monitoring for changes (checking every '' @ str_int interval @
            ''s)...'')"
proof -
  let ?head = "[''Total Devices: '' @ str_nat (length on + length off),
              [],
              green_circle @ '' Online ('' @ str_nat (length on) @ ''):'']"
  let ?mid = "[[], red_circle @ '' Offline ('' @ str_nat (length off) @ ''):'']"
  let ?foot = "magnifier @ '' Now monitoring for changes (checking every '' @ str_int interval @
            ''s)...''"
  have "report_body interval (map PStr on) (map PStr off) =
          Inr (join newline ((?head @ listing (sort on) @ ?mid) @ listing (sort off) @ [[], ?foot]))"
    by (simp add: report_body_def Let_def section_lines_strings del: join.simps)
  also have "(?head @ listing (sort on) @ ?mid) @ listing (sort off) @ [[], ?foot] =
          (?head @ listing (sort on) @ ?mid @ listing (sort off) @ [[]]) @ [?foot]"
    by simp
  also have "join newline \<dots> =
          lines_text (?head @ listing (sort on) @ ?mid @ listing (sort off) @ [[]]) @ ?foot"
    unfolding newline_def by (rule join_lines_text)
  finally show ?thesis .
qed

lemma sample_classified:
  "classified sample_env sample_clock 61 0 sample_devices =
     [(''phone'', True), (''box'', False), (''phone-new'', False)]"
  "classified sample_env sample_clock 60 0 sample_devices =
     [(''phone'', False), (''box'', False), (''phone-new'', False)]"
  by (simp_all add: sample_devices_def display_name_def get_def get_default_def
      is_device_online_def online_try_def replace_Z_sample sample_env_def sample_parser_def
      datetime_sub_def timedelta_seconds_def sample_clock_def)

lemma sample_returns: "classifier_returns sample_env sample_clock T 0 sample_devices"
proof -
  have "utf8_stdout line" if "line_name line = PStr ''phone''" for line
    using that by (simp add: utf8_stdout_def)
  then have "\<not> isl (is_device_online sample_env now T (sample_devices ! 0))" for now
    by (auto simp: sample_devices_def is_device_online_def online_try_def print_line_def
        sample_env_def get_def get_default_def Let_def split: sum.splits option.splits)
  then have "\<not> isl (is_device_online sample_env now T
      [''id'' \<mapsto> PStr ''1'', ''name'' \<mapsto> PStr ''phone'',
       ''lastSeen'' \<mapsto> PStr ''2024-01-01T00:00:00Z''])" for now
    by (simp add: sample_devices_def)
  then show ?thesis
    by (simp add: sample_devices_def is_device_online_falsy)
qed

lemma sample_names: "\<forall>d \<in> set sample_devices. display_name d \<noteq> PNone"
  by (simp add: sample_devices_def display_name_def get_def get_default_def)

text \<open>
  C8 as stated fails in three ways. The report is made from the fetched records, not
  from the snapshot: in the sample batch the id \<open>1\<close> occurs twice, the snapshot has two
  entries and the report counts and lists three devices. Two records whose name is
  \<open>None\<close> (a \<open>null\<close> hostname and no name), which the builder accepts, make \<open>sorted\<close>
  raise \<open>TypeError\<close>: there is no report. And a record on which the classifier raises
  leaves no report either.
\<close>

theorem report_counterexample:
  "build_current sample_env sample_clock 60 sample_devices = Inr sample_snapshot \<and>
   keys sample_snapshot = [PStr ''1'', PStr ''2''] \<and>
   initial_status_body sample_env sample_clock 60 60 sample_devices =
     Inr (''Total Devices: 3'' @
       [CHR 0x0A, CHR 0x0A, CHR 0xF0, CHR 0x9F, CHR 0x9F, CHR 0xA2] @ '' Online (0):'' @
       [CHR 0x0A] @ ''  (none)'' @
       [CHR 0x0A, CHR 0x0A, CHR 0xF0, CHR 0x9F, CHR 0x94, CHR 0xB4] @ '' Offline (3):'' @
       [CHR 0x0A] @ ''  '' @ [CHR 0xE2, CHR 0x80, CHR 0xA2] @ '' box'' @ [CHR 0x0A] @
       ''  '' @ [CHR 0xE2, CHR 0x80, CHR 0xA2] @ '' phone'' @ [CHR 0x0A] @ ''  '' @
       [CHR 0xE2, CHR 0x80, CHR 0xA2] @ '' phone-new'' @
       [CHR 0x0A, CHR 0x0A, CHR 0xF0, CHR 0x9F, CHR 0x94, CHR 0x8D] @
       '' Now monitoring for changes (checking every 60s)...'') \<and>
   build_current sample_env sample_clock 60
     [[''id'' \<mapsto> PStr ''1'', ''hostname'' \<mapsto> PNone], [''id'' \<mapsto> PStr ''2'', ''hostname'' \<mapsto> PNone]] =
     Inr (DAList.update (PStr ''2'') \<lparr>name = PNone, online = False, lastSeen = PStr []\<rparr>
           (DAList.update (PStr ''1'') \<lparr>name = PNone, online = False, lastSeen = PStr []\<rparr>
              DAList.empty)) \<and>
   initial_status_body sample_env sample_clock 60 60
     [[''id'' \<mapsto> PStr ''1'', ''hostname'' \<mapsto> PNone], [''id'' \<mapsto> PStr ''2'', ''hostname'' \<mapsto> PNone]] =
     Inl TypeError \<and>
   initial_status_body sample_env sample_clock 60 60
     [[''id'' \<mapsto> PStr ''1'', ''name'' \<mapsto> PStr lone_surrogate, ''lastSeen'' \<mapsto> PStr ''yesterday'']] =
     Inl UnicodeEncodeError"
proof -
  have k: "keys sample_snapshot = [PStr ''1'', PStr ''2'']"
    by (simp add: keys_def sample_snapshot_def items_update items_empty)
  have c: "classify_devices sample_env sample_clock 60 0 sample_devices [] [] =
             Inr ([], [PStr ''phone'', PStr ''box'', PStr ''phone-new''])"
    using classify_devices_classified [OF sample_names sample_returns, of 60 "[]" "[]"]
    by (simp add: sample_classified)
  have r: "initial_status_body sample_env sample_clock 60 60 sample_devices =
     Inr (''Total Devices: 3'' @
       [CHR 0x0A, CHR 0x0A, CHR 0xF0, CHR 0x9F, CHR 0x9F, CHR 0xA2] @ '' Online (0):'' @
       [CHR 0x0A] @ ''  (none)'' @
       [CHR 0x0A, CHR 0x0A, CHR 0xF0, CHR 0x9F, CHR 0x94, CHR 0xB4] @ '' Offline (3):'' @
       [CHR 0x0A] @ ''  '' @ [CHR 0xE2, CHR 0x80, CHR 0xA2] @ '' box'' @ [CHR 0x0A] @
       ''  '' @ [CHR 0xE2, CHR 0x80, CHR 0xA2] @ '' phone'' @ [CHR 0x0A] @ ''  '' @
       [CHR 0xE2, CHR 0x80, CHR 0xA2] @ '' phone-new'' @
       [CHR 0x0A, CHR 0x0A, CHR 0xF0, CHR 0x9F, CHR 0x94, CHR 0x8D] @
       '' Now monitoring for changes (checking every 60s)...'')"
    by (simp add: initial_status_body_def c report_body_def section_lines_def py_sorted_def
        str_nat.simps str_int_def green_circle_def red_circle_def magnifier_def bullet_def
        newline_def)
  have n: "build_current sample_env sample_clock 60
     [[''id'' \<mapsto> PStr ''1'', ''hostname'' \<mapsto> PNone], [''id'' \<mapsto> PStr ''2'', ''hostname'' \<mapsto> PNone]] =
     Inr (DAList.update (PStr ''2'') \<lparr>name = PNone, online = False, lastSeen = PStr []\<rparr>
           (DAList.update (PStr ''1'') \<lparr>name = PNone, online = False, lastSeen = PStr []\<rparr>
              DAList.empty))"
    by (simp add: build_current_def make_entry_def is_device_online_falsy display_name_def get_def
        get_default_def)
  have t: "initial_status_body sample_env sample_clock 60 60
     [[''id'' \<mapsto> PStr ''1'', ''hostname'' \<mapsto> PNone], [''id'' \<mapsto> PStr ''2'', ''hostname'' \<mapsto> PNone]] =
     Inl TypeError"
    by (simp add: initial_status_body_def is_device_online_falsy display_name_def get_def
        get_default_def report_body_def section_lines_def py_sorted_def)
  have u: "initial_status_body sample_env sample_clock 60 60
     [[''id'' \<mapsto> PStr ''1'', ''name'' \<mapsto> PStr lone_surrogate, ''lastSeen'' \<mapsto> PStr ''yesterday'']] =
     Inl UnicodeEncodeError"
    by (simp add: initial_status_body_def is_device_online_def get_def get_default_def
        online_try_def replace_Z_def sample_env_def sample_parser_def print_line_def
        utf8_rejects_surrogate)
  from sample_build k r n t u show ?thesis by simp
qed

text \<open>
  C8, amended. For every fetched device list whose display names are strings and on
  whose records the classifier returns (as it does when stdout encodes every log line),
  the body of the status report is, line by line: the number of records; an empty line;
  the online heading with the number of online names; the online names sorted
  lexicographically, one per line, or the line \<open>(none)\<close> when there is none; an empty
  line; the offline heading, count and names in the same way; an empty line; and the
  check interval. The names are those of the records, one per record, so that an id that
  occurs twice is listed and counted twice: the two lists partition them.
\<close>

theorem report_partitions_sorted:
  "((\<forall>d \<in> set devices. display_name d \<noteq> PNone) \<and> classifier_returns env clock T 0 devices \<longrightarrow>
     initial_status_body env clock T interval devices =
       Inr (lines_text
              ([''Total Devices: '' @ str_nat (length devices),
                [],
                [CHR 0xF0, CHR 0x9F, CHR 0x9F, CHR 0xA2] @ '' Online ('' @
                  str_nat (length (online_names env clock T devices)) @ ''):''] @
               listing (online_names env clock T devices) @
               [[],
                [CHR 0xF0, CHR 0x9F, CHR 0x94, CHR 0xB4] @ '' Offline ('' @
                  str_nat (length (offline_names env clock T devices)) @ ''):''] @
               listing (offline_names env clock T devices) @
               [[]]) @
            [CHR 0xF0, CHR 0x9F, CHR 0x94, CHR 0x8D] @
            '' Now monitoring for changes (checking every '' @ str_int interval @ ''s)...'')) \<and>
   sorted (online_names env clock T devices) \<and>
   sorted (offline_names env clock T devices) \<and>
   length (online_names env clock T devices) + length (offline_names env clock T devices) =
     length devices \<and>
   mset (online_names env clock T devices) + mset (offline_names env clock T devices) =
     mset (map (\<lambda>d. format_val (display_name d)) devices) \<and>
   ((\<forall>line. stdout_accepts env line) \<longrightarrow> classifier_returns env clock T 0 devices)"
proof (intro impI conjI)
  let ?c = "classified env clock T 0 devices"
  let ?on = "map fst (filter snd ?c)"
  let ?off = "map fst (filter (\<lambda>p. \<not> snd p) ?c)"
  have len: "length ?on + length ?off = length devices"
    using sum_length_filter_compl [of snd ?c] by (simp add: length_classified)
  show "initial_status_body env clock T interval devices =
       Inr (lines_text
              ([''Total Devices: '' @ str_nat (length devices),
                [],
                [CHR 0xF0, CHR 0x9F, CHR 0x9F, CHR 0xA2] @ '' Online ('' @
                  str_nat (length (online_names env clock T devices)) @ ''):''] @
               listing (online_names env clock T devices) @
               [[],
                [CHR 0xF0, CHR 0x9F, CHR 0x94, CHR 0xB4] @ '' Offline ('' @
                  str_nat (length (offline_names env clock T devices)) @ ''):''] @
               listing (offline_names env clock T devices) @
               [[]]) @
            [CHR 0xF0, CHR 0x9F, CHR 0x94, CHR 0x8D] @
            '' Now monitoring for changes (checking every '' @ str_int interval @ ''s)...'')"
    if h: "(\<forall>d \<in> set devices. display_name d \<noteq> PNone) \<and> classifier_returns env clock T 0 devices"
  proof -
    from h have cl: "classify_devices env clock T 0 devices [] [] = Inr (map PStr ?on, map PStr ?off)"
      using classify_devices_classified [of devices env clock T 0 "[]" "[]"] by simp
    show ?thesis
      unfolding initial_status_body_def cl online_names_def offline_names_def
      using len
      by (simp add: report_body_strings green_circle_def red_circle_def magnifier_def
          del: map_map)
  qed
  show "sorted (online_names env clock T devices)" "sorted (offline_names env clock T devices)"
    by (simp_all add: online_names_def offline_names_def)
  show "length (online_names env clock T devices) + length (offline_names env clock T devices) =
       length devices"
    using len by (simp add: online_names_def offline_names_def)
  have "mset ?on + mset ?off = mset (map fst ?c)"
  proof -
    have "mset (map fst (filter P xs)) + mset (map fst (filter (\<lambda>p. \<not> P p) xs)) =
          mset (map fst xs)" for P and xs :: "(string \<times> bool) list"
      by (induction xs) simp_all
    then show ?thesis .
  qed
  then show "mset (online_names env clock T devices) + mset (offline_names env clock T devices) =
       mset (map (\<lambda>d. format_val (display_name d)) devices)"
    by (simp add: online_names_def offline_names_def map_fst_classified)
  show "classifier_returns env clock T 0 devices" if "\<forall>line. stdout_accepts env line"
    using that by (rule classifier_returns_stdout)
qed

text \<open>
  The report for the sample batch with a threshold of 61 seconds, as text: one record
  online, two offline; and for an empty batch, where both headings get the placeholder.
\<close>

theorem report_partitions_sorted_witness:
  "initial_status_body sample_env sample_clock 61 60 sample_devices =
     Inr (''Total Devices: 3'' @
       [CHR 0x0A, CHR 0x0A, CHR 0xF0, CHR 0x9F, CHR 0x9F, CHR 0xA2] @ '' Online (1):'' @
       [CHR 0x0A] @ ''  '' @ [CHR 0xE2, CHR 0x80, CHR 0xA2] @ '' phone'' @
       [CHR 0x0A, CHR 0x0A, CHR 0xF0, CHR 0x9F, CHR 0x94, CHR 0xB4] @ '' Offline (2):'' @
       [CHR 0x0A] @ ''  '' @ [CHR 0xE2, CHR 0x80, CHR 0xA2] @ '' box'' @ [CHR 0x0A] @
       ''  '' @ [CHR 0xE2, CHR 0x80, CHR 0xA2] @ '' phone-new'' @
       [CHR 0x0A, CHR 0x0A, CHR 0xF0, CHR 0x9F, CHR 0x94, CHR 0x8D] @
       '' Now monitoring for changes (checking every 60s)...'') \<and>
   initial_status_body sample_env sample_clock 61 60 [] =
     Inr (''Total Devices: 0'' @
       [CHR 0x0A, CHR 0x0A, CHR 0xF0, CHR 0x9F, CHR 0x9F, CHR 0xA2] @ '' Online (0):'' @
       [CHR 0x0A] @ ''  (none)'' @
       [CHR 0x0A, CHR 0x0A, CHR 0xF0, CHR 0x9F, CHR 0x94, CHR 0xB4] @ '' Offline (0):'' @
       [CHR 0x0A] @ ''  (none)'' @
       [CHR 0x0A, CHR 0x0A, CHR 0xF0, CHR 0x9F, CHR 0x94, CHR 0x8D] @
       '' Now monitoring for changes (checking every 60s)...'')"
proof -
  have on: "online_names sample_env sample_clock 61 sample_devices = [''phone'']"
    and off: "offline_names sample_env sample_clock 61 sample_devices = [''box'', ''phone-new'']"
    by (simp_all add: online_names_def offline_names_def sample_classified)
  have l: "length sample_devices = 3"
    by (simp add: sample_devices_def)
  have e: "online_names sample_env sample_clock 61 [] = []"
    "offline_names sample_env sample_clock 61 [] = []"
    by (simp_all add: online_names_def offline_names_def)
  from report_partitions_sorted [of sample_devices sample_env sample_clock 61 60]
    sample_names sample_returns [of 61]
  have a: "initial_status_body sample_env sample_clock 61 60 sample_devices =
     Inr (''Total Devices: 3'' @
       [CHR 0x0A, CHR 0x0A, CHR 0xF0, CHR 0x9F, CHR 0x9F, CHR 0xA2] @ '' Online (1):'' @
       [CHR 0x0A] @ ''  '' @ [CHR 0xE2, CHR 0x80, CHR 0xA2] @ '' phone'' @
       [CHR 0x0A, CHR 0x0A, CHR 0xF0, CHR 0x9F, CHR 0x94, CHR 0xB4] @ '' Offline (2):'' @
       [CHR 0x0A] @ ''  '' @ [CHR 0xE2, CHR 0x80, CHR 0xA2] @ '' box'' @ [CHR 0x0A] @
       ''  '' @ [CHR 0xE2, CHR 0x80, CHR 0xA2] @ '' phone-new'' @
       [CHR 0x0A, CHR 0x0A, CHR 0xF0, CHR 0x9F, CHR 0x94, CHR 0x8D] @
       '' Now monitoring for changes (checking every 60s)...'')"
    by (simp add: on off l listing_def lines_text_def str_nat.simps str_int_def)
  from report_partitions_sorted [of "[]" sample_env sample_clock 61 60]
  have b: "initial_status_body sample_env sample_clock 61 60 [] =
     Inr (''Total Devices: 0'' @
       [CHR 0x0A, CHR 0x0A, CHR 0xF0, CHR 0x9F, CHR 0x9F, CHR 0xA2] @ '' Online (0):'' @
       [CHR 0x0A] @ ''  (none)'' @
       [CHR 0x0A, CHR 0x0A, CHR 0xF0, CHR 0x9F, CHR 0x94, CHR 0xB4] @ '' Offline (0):'' @
       [CHR 0x0A] @ ''  (none)'' @
       [CHR 0x0A, CHR 0x0A, CHR 0xF0, CHR 0x9F, CHR 0x94, CHR 0x8D] @
       '' Now monitoring for changes (checking every 60s)...'')"
    by (simp add: e listing_def lines_text_def str_nat.simps str_int_def)
  from a b show ?thesis by simp
qed

end
